theory Spec2Isabelle
  imports Main "HOL-Library.Sublist"
begin

section \<open>MemeManager (src/core/meme.py): data model\<close>

text \<open>
  A Python \<open>str\<close> is a sequence of Unicode code points; \<open>bytes\<close> is a sequence of
  octets (an Isabelle \<open>char\<close> is one octet).
\<close>

type_synonym pystr = "nat list"
type_synonym bytes = "char list"

definition codepoints :: "string \<Rightarrow> pystr" where
  "codepoints s = map of_char s"

text \<open>The exceptions (subclasses of \<open>Exception\<close>) that the module can meet.\<close>

datatype exn = IndexError | NameError | AttributeError pystr | OtherError pystr

text \<open>\<open>io.BytesIO\<close> and its \<open>getvalue()\<close>.\<close>

datatype bytesio = BytesIO bytes

fun getvalue :: "bytesio \<Rightarrow> bytes" where
  "getvalue (BytesIO b) = b"

text \<open>
  The parameter-shape descriptor of a template (\<open>meme.params_type\<close> in the legacy binding,
  \<open>meme.info.params\<close> in the current one) and the template itself, with the attributes this
  module reads. \<open>tags\<close> is a Python set; the list is its iteration order, which is what
  \<open>list(tags)\<close> yields.
\<close>

record params =
  min_images :: int
  max_images :: int
  min_texts :: int
  max_texts :: int
  default_texts :: "pystr list"

record meme =
  key :: pystr
  "keywords" :: "pystr list"
  params_type :: params
  tags :: "pystr list"

text \<open>What \<open>meme.generate_preview()\<close> hands back: a buffer (legacy) or raw bytes (current).\<close>

datatype image_result = Buffer bytesio | Raw bytes

text \<open>
  The outcome of the \<open>try\<close> block of \<open>_load_memes\<close> as far as the external library decides
  it: \<open>get_memes()\<close> returns a list, \<open>get_memes()\<close> raises, or it returns a list and reading
  the keywords of one of its templates raises while the list is flattened.
\<close>

datatype fetch_result =
    Returned "meme list"
  | Raised exn
  | FlattenRaised "meme list" exn

datatype event = Event pystr

datatype options = Options "(pystr \<times> pystr) list"

text \<open>The named image record that the current binding's generator takes.\<close>

datatype meme_image = MemeImage pystr bytes

text \<open>
  Everything outside this file: the import result, the version test, the configuration,
  the external library and the parameter collector. \<open>get_memes n\<close> is the answer to the
  \<open>n\<close>-th call of \<open>get_memes()\<close> of the process; \<open>py_repr\<close> is Python's \<open>repr\<close> on \<open>str\<close>.
\<close>

record lib =
  available :: bool
  is_py_version :: bool
  is_check_resources :: bool
  check_resources_func :: "exn option"
  get_memes :: "nat \<Rightarrow> fetch_result"
  py_repr :: "pystr \<Rightarrow> pystr"
  generate_preview :: "meme \<Rightarrow> exn + image_result"
  render_meme_list :: "meme list \<Rightarrow> exn + bytesio"
  collect_params :: "event \<Rightarrow> params \<Rightarrow> exn + ((pystr \<times> bytes) list \<times> pystr list \<times> options)"
  run_sync_meme :: "meme \<Rightarrow> bytes list \<Rightarrow> pystr list \<Rightarrow> options \<Rightarrow> exn + bytesio"
  generate :: "meme \<Rightarrow> meme_image list \<Rightarrow> pystr list \<Rightarrow> options \<Rightarrow> exn + bytes"

text \<open>
  The manager's fields, and the system state: the manager together with the number of
  \<open>get_memes()\<close> calls issued so far.
\<close>

record manager =
  memes :: "meme list"
  meme_keywords :: "pystr list"
  memes_loaded :: bool

record sys =
  mgr :: manager
  fetch_calls :: nat

definition init_manager :: manager where
  "init_manager = \<lparr>memes = [], meme_keywords = [], memes_loaded = False\<rparr>"

definition init_sys :: sys where
  "init_sys = \<lparr>mgr = init_manager, fetch_calls = 0\<rparr>"

section \<open>Catalog load\<close>

text \<open>The list comprehension of \<open>_load_memes\<close>: every template's keywords, in catalog order.\<close>

fun flatten_keywords :: "meme list \<Rightarrow> pystr list" where
  "flatten_keywords [] = []"
| "flatten_keywords (m # ms) = keywords m @ flatten_keywords ms"

definition load_memes :: "lib \<Rightarrow> sys \<Rightarrow> sys" where
  "load_memes L s =
     (if memes_loaded (mgr s) then s
      else if \<not> available L then s
      else
        (let s' = s\<lparr>fetch_calls := Suc (fetch_calls s)\<rparr>
         in case get_memes L (fetch_calls s) of
              Raised e \<Rightarrow> s'\<lparr>mgr := (mgr s)\<lparr>memes := [], meme_keywords := []\<rparr>\<rparr>
            | Returned ms \<Rightarrow>
                if ms = [] then s'\<lparr>mgr := (mgr s)\<lparr>memes := ms\<rparr>\<rparr>
                else s'\<lparr>mgr := (mgr s)\<lparr>memes := ms,
                                       meme_keywords := flatten_keywords ms,
                                       memes_loaded := True\<rparr>\<rparr>
            | FlattenRaised ms e \<Rightarrow>
                if ms = [] then s'\<lparr>mgr := (mgr s)\<lparr>memes := ms\<rparr>\<rparr>
                else s'\<lparr>mgr := (mgr s)\<lparr>memes := [], meme_keywords := []\<rparr>\<rparr>))"

text \<open>
  \<open>check_resources\<close>: a failed resource check is only logged, so in every enabled case
  the load follows.
\<close>

definition check_resources :: "lib \<Rightarrow> sys \<Rightarrow> sys" where
  "check_resources L s =
     (if \<not> available L then s
      else if \<not> is_check_resources L then load_memes L s
      else (case check_resources_func L of
              None \<Rightarrow> load_memes L s
            | Some e \<Rightarrow> load_memes L s))"

section \<open>Keyword resolution\<close>

fun find_loop :: "meme list \<Rightarrow> pystr \<Rightarrow> meme option" where
  "find_loop [] keyword = None"
| "find_loop (m # ms) keyword =
     (if keyword = key m \<or> keyword \<in> set (keywords m) then Some m
      else find_loop ms keyword)"

definition find_meme :: "manager \<Rightarrow> pystr \<Rightarrow> meme option" where
  "find_meme st keyword =
     (if \<not> memes_loaded st then None else find_loop (memes st) keyword)"

definition is_meme_keyword :: "manager \<Rightarrow> pystr \<Rightarrow> bool" where
  "is_meme_keyword st meme_name =
     (if \<not> memes_loaded st then False else meme_name \<in> set (meme_keywords st))"

text \<open>
  \<open>str.split()\<close> without arguments: the maximal runs of non-whitespace characters.
  \<open>isspace\<close> is the whitespace test of CPython's Unicode database.
\<close>

definition isspace :: "nat \<Rightarrow> bool" where
  "isspace c \<longleftrightarrow>
     (9 \<le> c \<and> c \<le> 13) \<or> (28 \<le> c \<and> c \<le> 32) \<or> c = 133 \<or> c = 160 \<or> c = 5760 \<or>
     (8192 \<le> c \<and> c \<le> 8202) \<or> c = 8232 \<or> c = 8233 \<or> c = 8239 \<or> c = 8287 \<or> c = 12288"

fun split_from :: "pystr \<Rightarrow> pystr \<Rightarrow> pystr list" where
  "split_from cur [] = (if cur = [] then [] else [rev cur])"
| "split_from cur (c # cs) =
     (if isspace c then (if cur = [] then split_from [] cs else rev cur # split_from [] cs)
      else split_from (c # cur) cs)"

definition py_split :: "pystr \<Rightarrow> pystr list" where
  "py_split text = split_from [] text"

text \<open>
  \<open>next((k for k in meme_keywords if k in text), None)\<close>: \<open>k in text\<close> on strings is the
  substring test.
\<close>

fun next_fuzzy :: "pystr list \<Rightarrow> pystr \<Rightarrow> pystr option" where
  "next_fuzzy [] text = None"
| "next_fuzzy (k # ks) text = (if sublist k text then Some k else next_fuzzy ks text)"

text \<open>
  \<open>next((k for k in meme_keywords if k == text.split()[0]), None)\<close>: the condition, and
  with it \<open>text.split()[0]\<close>, is evaluated once for each keyword that the generator reaches,
  and indexing an empty list raises \<open>IndexError\<close>.
\<close>

fun next_exact :: "pystr list \<Rightarrow> pystr \<Rightarrow> exn + pystr option" where
  "next_exact [] text = Inr None"
| "next_exact (k # ks) text =
     (case py_split text of
        [] \<Rightarrow> Inl IndexError
      | t # ts \<Rightarrow> if k = t then Inr (Some k) else next_exact ks text)"

definition match_meme_keyword :: "manager \<Rightarrow> pystr \<Rightarrow> bool \<Rightarrow> exn + pystr option" where
  "match_meme_keyword st text fuzzy_match =
     (if \<not> memes_loaded st then Inr None
      else if fuzzy_match then Inr (next_fuzzy (meme_keywords st) text)
      else next_exact (meme_keywords st) text)"

section \<open>Catalog rendering\<close>

text \<open>
  \<open>render_meme_list_image\<close>. In the current binding the call reads \<open>MemeSortBy\<close>, which
  the module imports only inside \<open>__init__\<close>; the name is unbound where the method looks
  it up, and the lookup raises \<open>NameError\<close> before the renderer is called.
\<close>

definition render_meme_list_image :: "lib \<Rightarrow> manager \<Rightarrow> exn + bytes option" where
  "render_meme_list_image L st =
     (if \<not> memes_loaded st then Inr None
      else if is_py_version L then
        (case render_meme_list L (memes st) of
           Inl e \<Rightarrow> Inl e
         | Inr buf \<Rightarrow> Inr (Some (getvalue buf)))
      else Inl NameError)"

section \<open>Template info\<close>

text \<open>\<open>str(i)\<close> of an integer, as an f-string formats it.\<close>

fun dec_digits :: "nat \<Rightarrow> pystr" where
  "dec_digits n = (if n < 10 then [48 + n] else dec_digits (n div 10) @ [48 + n mod 10])"

declare dec_digits.simps [simp del]

definition py_str_int :: "int \<Rightarrow> pystr" where
  "py_str_int i = (if i < 0 then 45 # dec_digits (nat (- i)) else dec_digits (nat i))"

text \<open>\<open>str\<close> of a list of strings: the elements' \<open>repr\<close>, joined by a comma and a space.\<close>

fun join_comma :: "pystr list \<Rightarrow> pystr" where
  "join_comma [] = []"
| "join_comma [x] = x"
| "join_comma (x # y # ys) = x @ [44, 32] @ join_comma (y # ys)"

definition py_repr_list :: "lib \<Rightarrow> pystr list \<Rightarrow> pystr" where
  "py_repr_list L xs = [91] @ join_comma (map (py_repr L) xs) @ [93]"

text \<open>The literals of the f-strings, as code points.\<close>

definition nl :: nat where
  "nl = 10"

definition lbl_name :: pystr where
  "lbl_name = [21517, 31216, 65306]"

definition lbl_alias :: pystr where
  "lbl_alias = [21035, 21517, 65306]"

definition lbl_images :: pystr where
  "lbl_images = [25152, 38656, 22270, 29255, 65306]"

definition unit_images :: pystr where
  "unit_images = [24352]"

definition lbl_texts :: pystr where
  "lbl_texts = [25152, 38656, 25991, 26412, 65306]"

definition unit_texts :: pystr where
  "unit_texts = [27573]"

definition lbl_default_texts :: pystr where
  "lbl_default_texts = [40664, 35748, 25991, 26412, 65306]"

definition lbl_tags :: pystr where
  "lbl_tags = [26631, 31614, 65306]"

text \<open>The description that \<open>get_meme_info\<close> assembles (the statements on \<open>meme_info\<close>).\<close>

definition meme_info_text :: "lib \<Rightarrow> meme \<Rightarrow> pystr" where
  "meme_info_text L meme =
     (let p = params_type meme;
          kws = keywords meme;
          tgs = tags meme;
          meme_info = [];
          meme_info = (if key meme \<noteq> [] then meme_info @ lbl_name @ key meme @ [nl]
                       else meme_info);
          meme_info = (if kws \<noteq> [] then meme_info @ lbl_alias @ py_repr_list L kws @ [nl]
                       else meme_info);
          meme_info = (if max_images p > 0 then
                         meme_info @
                         (if min_images p = max_images p
                          then lbl_images @ py_str_int (min_images p) @ unit_images @ [nl]
                          else lbl_images @ py_str_int (min_images p) @ [126] @
                               py_str_int (max_images p) @ unit_images @ [nl])
                       else meme_info);
          meme_info = (if max_texts p > 0 then
                         meme_info @
                         (if min_texts p = max_texts p
                          then lbl_texts @ py_str_int (min_texts p) @ unit_texts @ [nl]
                          else lbl_texts @ py_str_int (min_texts p) @ [126] @
                               py_str_int (max_texts p) @ unit_texts @ [nl])
                       else meme_info);
          meme_info = (if default_texts p \<noteq> []
                       then meme_info @ lbl_default_texts @
                            py_repr_list L (default_texts p) @ [nl]
                       else meme_info);
          meme_info = (if tgs \<noteq> [] then meme_info @ lbl_tags @ py_repr_list L tgs @ [nl]
                       else meme_info)
      in meme_info)"

definition get_meme_info :: "lib \<Rightarrow> manager \<Rightarrow> pystr \<Rightarrow> exn + (pystr \<times> bytes) option" where
  "get_meme_info L st keyword =
     (case find_meme st keyword of
        None \<Rightarrow> Inr None
      | Some meme \<Rightarrow>
          (let meme_info = meme_info_text L meme
           in case generate_preview L meme of
                Inl e \<Rightarrow> Inl e
              | Inr previewed \<Rightarrow>
                  Inr (Some (meme_info,
                             (case previewed of Buffer b \<Rightarrow> getvalue b | Raw b \<Rightarrow> b)))))"

section \<open>Generation pipeline\<close>

text \<open>
  \<open>generate_meme\<close> returns its result together with the state it leaves. The identifiers
  that the collector pairs with the image bytes are strings, on which \<open>str\<close> is the identity.
\<close>

definition generate_meme :: "lib \<Rightarrow> event \<Rightarrow> pystr \<Rightarrow> sys \<Rightarrow> (exn + bytes option) \<times> sys" where
  "generate_meme L ev keyword s =
     (case find_meme (mgr s) keyword of
        None \<Rightarrow> (Inr None, s)
      | Some meme \<Rightarrow>
          (case collect_params L ev (params_type meme) of
             Inl e \<Rightarrow> (Inl e, s)
           | Inr (images, texts, opts) \<Rightarrow>
               if is_py_version L then
                 (let meme_images = map snd images
                  in case run_sync_meme L meme meme_images texts opts of
                       Inl e \<Rightarrow> (Inl e, s)
                     | Inr buf \<Rightarrow> (Inr (Some (getvalue buf)), s))
               else
                 (let meme_images = map (\<lambda>i. MemeImage (fst i) (snd i)) images
                  in case generate L meme meme_images texts opts of
                       Inl e \<Rightarrow> (Inl e, s)
                     | Inr b \<Rightarrow> (Inr (Some b), s))))"

section \<open>Histories of calls\<close>

text \<open>
  The methods a caller can invoke on the manager, and the state that each call leaves:
  only \<open>_load_memes\<close> (directly or through \<open>check_resources\<close>) assigns a field. The
  coroutines (\<open>check_resources\<close>, \<open>render_meme_list_image\<close>, \<open>generate_meme\<close>) are run to
  completion, one call after the other, as the host's event loop awaits them.
\<close>

datatype op =
    OpLoadMemes
  | OpCheckResources
  | OpFindMeme pystr
  | OpIsMemeKeyword pystr
  | OpMatchMemeKeyword pystr bool
  | OpRenderMemeListImage
  | OpGetMemeInfo pystr
  | OpGenerateMeme event pystr

fun run :: "lib \<Rightarrow> op \<Rightarrow> sys \<Rightarrow> sys" where
  "run L OpLoadMemes s = load_memes L s"
| "run L OpCheckResources s = check_resources L s"
| "run L (OpFindMeme keyword) s = s"
| "run L (OpIsMemeKeyword meme_name) s = s"
| "run L (OpMatchMemeKeyword text fuzzy_match) s = s"
| "run L OpRenderMemeListImage s = s"
| "run L (OpGetMemeInfo keyword) s = s"
| "run L (OpGenerateMeme ev keyword) s = snd (generate_meme L ev keyword s)"

fun exec :: "lib \<Rightarrow> op list \<Rightarrow> sys \<Rightarrow> sys" where
  "exec L [] s = s"
| "exec L (c # cs) s = exec L cs (run L c s)"

section \<open>The invariant of the manager's fields\<close>

text \<open>
  The fields agree with each other: once loaded, the catalog is not empty and the keyword
  list is its flattening; before, both are empty.
\<close>

definition catalog_inv :: "manager \<Rightarrow> bool" where
  "catalog_inv st \<longleftrightarrow>
     (if memes_loaded st
      then memes st \<noteq> [] \<and> meme_keywords st = flatten_keywords (memes st)
      else memes st = [] \<and> meme_keywords st = [])"

section \<open>The description, line by line\<close>

text \<open>
  The segments of a text that a line feed ends (and a last segment without one, if any).
\<close>

fun lines_from :: "pystr \<Rightarrow> pystr \<Rightarrow> pystr list" where
  "lines_from cur [] = (if cur = [] then [] else [rev cur])"
| "lines_from cur (c # cs) =
     (if c = nl then rev cur # lines_from [] cs else lines_from (c # cur) cs)"

definition lines_of :: "pystr \<Rightarrow> pystr list" where
  "lines_of s = lines_from [] s"

text \<open>
  The lines of a template's description as the specification lists them: the name (if the
  key is not empty), the aliases (if any), the required image count (one value if the
  minimum equals the maximum, else a range; left out if the maximum is not positive), the
  required text count likewise, the default texts (if any), the tags (if any).
\<close>

definition spec_info_lines :: "lib \<Rightarrow> meme \<Rightarrow> pystr list" where
  "spec_info_lines L m =
     (if key m \<noteq> [] then [lbl_name @ key m] else []) @
     (if keywords m \<noteq> [] then [lbl_alias @ py_repr_list L (keywords m)] else []) @
     (if 0 < max_images (params_type m) then
        [if min_images (params_type m) = max_images (params_type m)
         then lbl_images @ py_str_int (min_images (params_type m)) @ unit_images
         else lbl_images @ py_str_int (min_images (params_type m)) @ [126] @
              py_str_int (max_images (params_type m)) @ unit_images]
      else []) @
     (if 0 < max_texts (params_type m) then
        [if min_texts (params_type m) = max_texts (params_type m)
         then lbl_texts @ py_str_int (min_texts (params_type m)) @ unit_texts
         else lbl_texts @ py_str_int (min_texts (params_type m)) @ [126] @
              py_str_int (max_texts (params_type m)) @ unit_texts]
      else []) @
     (if default_texts (params_type m) \<noteq> []
      then [lbl_default_texts @ py_repr_list L (default_texts (params_type m))] else []) @
     (if tags m \<noteq> [] then [lbl_tags @ py_repr_list L (tags m)] else [])"

section \<open>Example data\<close>

text \<open>
  Two templates that share the alias \<open>look\<close>, and an external library whose first
  \<open>get_memes()\<close> call finds nothing (resources still downloading) and whose later calls
  return the two templates. Its \<open>repr\<close> puts a string between apostrophes and escapes
  line feeds.
\<close>

definition ex_m1 :: meme where
  "ex_m1 = \<lparr>key = codepoints ''ksyx'',
            keywords = [codepoints ''look'', codepoints ''see''],
            params_type = \<lparr>min_images = 1, max_images = 1, min_texts = 0, max_texts = 0,
                           default_texts = []\<rparr>,
            tags = []\<rparr>"

definition ex_m2 :: meme where
  "ex_m2 = \<lparr>key = codepoints ''petpet'',
            keywords = [codepoints ''pet'', codepoints ''look''],
            params_type = \<lparr>min_images = 0, max_images = 2, min_texts = 1, max_texts = 3,
                           default_texts = [codepoints ''hi'']\<rparr>,
            tags = [codepoints ''cute'']\<rparr>"

definition ex_lib :: lib where
  "ex_lib = \<lparr>available = True,
             is_py_version = False,
             is_check_resources = False,
             check_resources_func = None,
             get_memes = (\<lambda>n. if n = 0 then Returned [] else Returned [ex_m1, ex_m2]),
             py_repr = (\<lambda>x. [39] @ concat (map (\<lambda>c. if c = 10 then [92, 110] else [c]) x)
                                 @ [39]),
             generate_preview = (\<lambda>m. if key m = codepoints ''ksyx''
                                      then Inr (Buffer (BytesIO ''png''))
                                      else Inr (Raw ''gif'')),
             render_meme_list = (\<lambda>ms. Inr (BytesIO ''list'')),
             collect_params = (\<lambda>ev p. case ev of Event t \<Rightarrow>
                                 if t = [] then Inl (OtherError (codepoints ''no input''))
                                 else Inr ([(codepoints ''a'', ''img'')], [t], Options [])),
             run_sync_meme = (\<lambda>m imgs txts opts. Inr (BytesIO ''out'')),
             generate = (\<lambda>m imgs txts opts.
                           if txts = [codepoints ''boom'']
                           then Inl (OtherError (codepoints ''render failed''))
                           else Inr ''out'')\<rparr>"

text \<open>The state after the first (empty) load, and after the second (successful) one.\<close>

definition ex_empty :: sys where
  "ex_empty = exec ex_lib [OpCheckResources] init_sys"

definition ex_sys :: sys where
  "ex_sys = exec ex_lib [OpCheckResources, OpLoadMemes] init_sys"

text \<open>Two templates that carry the same key, and a library that returns them.\<close>

definition dup_m1 :: meme where
  "dup_m1 = \<lparr>key = codepoints ''a'', keywords = [codepoints ''x''],
             params_type = \<lparr>min_images = 0, max_images = 0, min_texts = 0, max_texts = 0,
                            default_texts = []\<rparr>,
             tags = []\<rparr>"

definition dup_m2 :: meme where
  "dup_m2 = \<lparr>key = codepoints ''a'', keywords = [codepoints ''y''],
             params_type = \<lparr>min_images = 0, max_images = 0, min_texts = 0, max_texts = 0,
                            default_texts = []\<rparr>,
             tags = []\<rparr>"

definition dup_lib :: lib where
  "dup_lib = ex_lib\<lparr>get_memes := (\<lambda>n. Returned [dup_m1, dup_m2])\<rparr>"

definition dup_sys :: sys where
  "dup_sys = exec dup_lib [OpLoadMemes] init_sys"

text \<open>
  A library whose first \<open>get_memes()\<close> call raises an attribute error, whose second call
  returns a template whose keywords cannot be read, and whose later calls succeed.
\<close>

definition fail_lib :: lib where
  "fail_lib = ex_lib\<lparr>get_memes :=
     (\<lambda>n. if n = 0 then Raised (AttributeError (codepoints ''info''))
          else if n = 1 then FlattenRaised [ex_m1] (OtherError (codepoints ''resources''))
          else Returned [ex_m1])\<rparr>"

definition fail_sys :: sys where
  "fail_sys = exec fail_lib [OpLoadMemes] init_sys"

text \<open>The legacy binding, with a generator that fails.\<close>

definition legacy_lib :: lib where
  "legacy_lib = ex_lib\<lparr>is_py_version := True,
     run_sync_meme := (\<lambda>m imgs txts opts. Inl (OtherError (codepoints ''bad image'')))\<rparr>"

text \<open>A third template, and a library whose catalog holds all three.\<close>

definition ex_m3 :: meme where
  "ex_m3 = \<lparr>key = codepoints ''hug'',
            keywords = [codepoints ''hug'', codepoints ''see''],
            params_type = \<lparr>min_images = 2, max_images = 2, min_texts = 0, max_texts = 0,
                           default_texts = []\<rparr>,
            tags = []\<rparr>"

definition three_lib :: lib where
  "three_lib = ex_lib\<lparr>get_memes := (\<lambda>n. Returned [ex_m1, ex_m2, ex_m3])\<rparr>"

definition three_sys :: sys where
  "three_sys = exec three_lib [OpLoadMemes] init_sys"

section \<open>The example states, evaluated\<close>

lemma ex_empty_eval:
  "ex_empty = \<lparr>mgr = \<lparr>memes = [], meme_keywords = [], memes_loaded = False\<rparr>,
                fetch_calls = 1\<rparr>"
  by (simp add: ex_empty_def ex_lib_def init_sys_def init_manager_def check_resources_def
      load_memes_def)

lemma ex_sys_eval:
  "ex_sys = \<lparr>mgr = \<lparr>memes = [ex_m1, ex_m2],
                      meme_keywords = [codepoints ''look'', codepoints ''see'',
                                       codepoints ''pet'', codepoints ''look''],
                      memes_loaded = True\<rparr>,
              fetch_calls = 2\<rparr>"
  by (simp add: ex_sys_def ex_lib_def init_sys_def init_manager_def check_resources_def
      load_memes_def ex_m1_def ex_m2_def)

lemma dup_sys_eval:
  "dup_sys = \<lparr>mgr = \<lparr>memes = [dup_m1, dup_m2],
                       meme_keywords = [codepoints ''x'', codepoints ''y''],
                       memes_loaded = True\<rparr>,
               fetch_calls = 1\<rparr>"
  by (simp add: dup_sys_def dup_lib_def ex_lib_def init_sys_def init_manager_def
      load_memes_def dup_m1_def dup_m2_def)

section \<open>Keyword resolution: \<open>find_meme\<close>\<close>

lemma find_loop_None_iff:
  "find_loop ms kw = None \<longleftrightarrow> (\<forall>p \<in> set ms. \<not> (kw = key p \<or> kw \<in> set (keywords p)))"
  by (induction ms) auto

text \<open>A hit after a prefix without hits is what the loop returns.\<close>

lemma find_loop_first:
  assumes "\<forall>p \<in> set pre. \<not> (kw = key p \<or> kw \<in> set (keywords p))"
    and "kw = key m \<or> kw \<in> set (keywords m)"
  shows "find_loop (pre @ m # post) kw = Some m"
  using assms by (induction pre) auto

text \<open>What the loop returns is a hit, and nothing before it in the list is one.\<close>

lemma find_loop_Some_split:
  assumes "find_loop ms kw = Some m"
  shows "\<exists>pre post. ms = pre @ m # post \<and> (kw = key m \<or> kw \<in> set (keywords m)) \<and>
           (\<forall>p \<in> set pre. \<not> (kw = key p \<or> kw \<in> set (keywords p)))"
  using assms
proof (induction ms)
  case Nil
  then show ?case by simp
next
  case (Cons a ms)
  show ?case
  proof (cases "kw = key a \<or> kw \<in> set (keywords a)")
    case True
    with Cons.prems have "a = m" by simp
    with True have "a # ms = [] @ m # ms \<and> (kw = key m \<or> kw \<in> set (keywords m)) \<and>
        (\<forall>p \<in> set []. \<not> (kw = key p \<or> kw \<in> set (keywords p)))"
      by simp
    then show ?thesis by blast
  next
    case False
    with Cons.prems have "find_loop ms kw = Some m" by simp
    from Cons.IH [OF this] obtain pre post where e: "ms = pre @ m # post"
      and h: "kw = key m \<or> kw \<in> set (keywords m)"
      and n: "\<forall>p \<in> set pre. \<not> (kw = key p \<or> kw \<in> set (keywords p))"
      by blast
    from e have "a # ms = (a # pre) @ m # post" by simp
    moreover from n False
    have "\<forall>p \<in> set (a # pre). \<not> (kw = key p \<or> kw \<in> set (keywords p))" by simp
    ultimately show ?thesis using h by blast
  qed
qed

lemma find_loop_Some_iff:
  "find_loop ms kw = Some m \<longleftrightarrow>
     (\<exists>pre post. ms = pre @ m # post \<and> (kw = key m \<or> kw \<in> set (keywords m)) \<and>
        (\<forall>p \<in> set pre. \<not> (kw = key p \<or> kw \<in> set (keywords p))))"
  using find_loop_Some_split find_loop_first by blast

text \<open>
  C1. \<open>find_meme(keyword)\<close> returns the first template, in catalog order, whose key equals
  the keyword or whose keyword list contains it: it returns \<open>m\<close> exactly when the catalog is
  loaded and splits as \<open>pre @ m # post\<close> where \<open>m\<close> is a hit and no template of \<open>pre\<close> is one.
  So of two templates that share an alias the earlier one is returned, when nothing before
  it is a hit. It returns none exactly when the catalog is not loaded or no template is a
  hit.
\<close>

theorem find_meme_first_match:
  "(find_meme st kw = Some m \<longleftrightarrow>
      memes_loaded st \<and>
      (\<exists>pre post. memes st = pre @ m # post \<and> (kw = key m \<or> kw \<in> set (keywords m)) \<and>
         (\<forall>p \<in> set pre. \<not> (kw = key p \<or> kw \<in> set (keywords p))))) \<and>
   (memes_loaded st \<and> memes st = pre @ m1 # mid @ m2 # post \<and>
      kw \<in> set (keywords m1) \<and> kw \<in> set (keywords m2) \<and>
      (\<forall>p \<in> set pre. \<not> (kw = key p \<or> kw \<in> set (keywords p)))
      \<longrightarrow> find_meme st kw = Some m1) \<and>
   (find_meme st kw = None \<longleftrightarrow>
      \<not> memes_loaded st \<or> (\<forall>p \<in> set (memes st). \<not> (kw = key p \<or> kw \<in> set (keywords p))))"
proof (intro conjI)
  show "find_meme st kw = Some m \<longleftrightarrow>
      memes_loaded st \<and>
      (\<exists>pre post. memes st = pre @ m # post \<and> (kw = key m \<or> kw \<in> set (keywords m)) \<and>
         (\<forall>p \<in> set pre. \<not> (kw = key p \<or> kw \<in> set (keywords p))))"
    by (simp add: find_meme_def find_loop_Some_iff)
  show "memes_loaded st \<and> memes st = pre @ m1 # mid @ m2 # post \<and>
      kw \<in> set (keywords m1) \<and> kw \<in> set (keywords m2) \<and>
      (\<forall>p \<in> set pre. \<not> (kw = key p \<or> kw \<in> set (keywords p)))
      \<longrightarrow> find_meme st kw = Some m1"
    by (simp add: find_meme_def find_loop_first)
  show "find_meme st kw = None \<longleftrightarrow>
      \<not> memes_loaded st \<or> (\<forall>p \<in> set (memes st). \<not> (kw = key p \<or> kw \<in> set (keywords p)))"
    by (simp add: find_meme_def find_loop_None_iff)
qed

text \<open>
  The two example templates share the alias \<open>look\<close>; the first one is returned. No template
  carries \<open>zzz\<close>, and nothing is found before the load.
\<close>

theorem find_meme_first_match_witness:
  "memes_loaded (mgr ex_sys) \<and>
   memes (mgr ex_sys) = [] @ ex_m1 # [] @ ex_m2 # [] \<and>
   codepoints ''look'' \<in> set (keywords ex_m1) \<and>
   codepoints ''look'' \<in> set (keywords ex_m2) \<and>
   find_meme (mgr ex_sys) (codepoints ''look'') = Some ex_m1 \<and>
   find_meme (mgr ex_sys) (codepoints ''petpet'') = Some ex_m2 \<and>
   find_meme (mgr ex_sys) (codepoints ''zzz'') = None \<and>
   find_meme (mgr ex_empty) (codepoints ''look'') = None"
  using find_meme_first_match [of "mgr ex_sys" "codepoints ''look''" ex_m1 "[]" ex_m1 "[]" ex_m2 "[]"]
    find_meme_first_match [of "mgr ex_sys" "codepoints ''zzz''"]
    find_meme_first_match [of "mgr ex_empty" "codepoints ''look''"]
  by (simp add: ex_sys_eval ex_empty_eval ex_m1_def ex_m2_def codepoints_def find_meme_def)

section \<open>The loaded flag gates every query\<close>

text \<open>
  C4. While the loaded flag is false, \<open>find_meme\<close> returns none, \<open>is_meme_keyword\<close> returns
  false, \<open>match_meme_keyword\<close> returns none in both modes, \<open>render_meme_list_image\<close> returns
  none and \<open>get_meme_info\<close> returns none; each of them returns a value (\<open>Inr\<close>), none raises.
\<close>

theorem unloaded_queries_return_none:
  assumes "\<not> memes_loaded st"
  shows "find_meme st keyword = None \<and>
         is_meme_keyword st keyword = False \<and>
         match_meme_keyword st text fuzzy_match = Inr None \<and>
         render_meme_list_image L st = Inr None \<and>
         get_meme_info L st keyword = Inr None"
  using assms
  by (simp add: find_meme_def is_meme_keyword_def match_meme_keyword_def
      render_meme_list_image_def get_meme_info_def)

text \<open>At construction, and after a load that found no template.\<close>

theorem unloaded_queries_return_none_witness:
  "\<not> memes_loaded init_manager \<and>
   find_meme init_manager (codepoints ''look'') = None \<and>
   is_meme_keyword init_manager (codepoints ''look'') = False \<and>
   match_meme_keyword init_manager [] False = Inr None \<and>
   match_meme_keyword init_manager (codepoints ''look at this'') True = Inr None \<and>
   render_meme_list_image ex_lib init_manager = Inr None \<and>
   get_meme_info ex_lib init_manager (codepoints ''look'') = Inr None \<and>
   \<not> memes_loaded (mgr ex_empty) \<and>
   get_meme_info ex_lib (mgr ex_empty) (codepoints ''ksyx'') = Inr None"
  using unloaded_queries_return_none [of init_manager "codepoints ''look''" "[]" False ex_lib]
    unloaded_queries_return_none [of init_manager "codepoints ''look''"
      "codepoints ''look at this''" True ex_lib]
    unloaded_queries_return_none [of "mgr ex_empty" "codepoints ''ksyx''" "[]" False ex_lib]
  by (simp add: init_manager_def ex_empty_eval)

section \<open>The load path\<close>

lemma load_memes_loaded: "memes_loaded (mgr s) \<Longrightarrow> load_memes L s = s"
  by (simp add: load_memes_def)

lemma check_resources_loaded: "memes_loaded (mgr s) \<Longrightarrow> check_resources L s = s"
  by (simp add: check_resources_def load_memes_loaded split: option.splits)

lemma generate_meme_state: "snd (generate_meme L ev keyword s) = s"
  by (simp add: generate_meme_def Let_def split: option.splits sum.splits prod.splits)

lemma run_loaded: "memes_loaded (mgr s) \<Longrightarrow> run L c s = s"
  by (cases c) (simp_all add: load_memes_loaded check_resources_loaded generate_meme_state)

lemma exec_loaded: "memes_loaded (mgr s) \<Longrightarrow> exec L cs s = s"
  by (induction cs arbitrary: s) (simp_all add: run_loaded)

text \<open>
  C6. Calling \<open>_load_memes\<close> when the loaded flag is already true changes nothing: the
  catalog, the keyword list and the flag are the same, and so is the number of
  \<open>get_memes()\<close> calls issued (no second fetch).
\<close>

theorem load_memes_idempotent:
  assumes "memes_loaded (mgr s)"
  shows "memes (mgr (load_memes L s)) = memes (mgr s) \<and>
         meme_keywords (mgr (load_memes L s)) = meme_keywords (mgr s) \<and>
         memes_loaded (mgr (load_memes L s)) \<and>
         fetch_calls (load_memes L s) = fetch_calls s \<and>
         load_memes L s = s"
  using assms by (simp add: load_memes_loaded)

text \<open>
  On the loaded example state, with a library that would answer the next call with a
  different catalog: nothing is fetched.
\<close>

theorem load_memes_idempotent_witness:
  "memes_loaded (mgr ex_sys) \<and>
   get_memes dup_lib (fetch_calls ex_sys) = Returned [dup_m1, dup_m2] \<and>
   memes (mgr (load_memes dup_lib ex_sys)) = [ex_m1, ex_m2] \<and>
   fetch_calls (load_memes dup_lib ex_sys) = 2 \<and>
   load_memes dup_lib ex_sys = ex_sys"
  using load_memes_idempotent [of ex_sys dup_lib]
  by (simp add: ex_sys_eval dup_lib_def)

text \<open>
  C5. Once the loaded flag is true, no sequence of calls (loads, resource checks, queries,
  generations, against any behaviour of the external library) makes it false again or
  changes the catalog or the flattened keyword list.
\<close>

theorem loaded_is_permanent:
  assumes "memes_loaded (mgr s)"
  shows "memes_loaded (mgr (exec L cs s)) \<and>
         memes (mgr (exec L cs s)) = memes (mgr s) \<and>
         meme_keywords (mgr (exec L cs s)) = meme_keywords (mgr s)"
  using assms by (simp add: exec_loaded)

theorem loaded_is_permanent_witness:
  "memes_loaded (mgr ex_sys) \<and>
   memes_loaded (mgr (exec dup_lib
      [OpLoadMemes, OpCheckResources, OpGenerateMeme (Event []) (codepoints ''look''),
       OpRenderMemeListImage, OpLoadMemes] ex_sys)) \<and>
   memes (mgr (exec dup_lib
      [OpLoadMemes, OpCheckResources, OpGenerateMeme (Event []) (codepoints ''look''),
       OpRenderMemeListImage, OpLoadMemes] ex_sys)) = [ex_m1, ex_m2] \<and>
   meme_keywords (mgr (exec dup_lib
      [OpLoadMemes, OpCheckResources, OpGenerateMeme (Event []) (codepoints ''look''),
       OpRenderMemeListImage, OpLoadMemes] ex_sys)) =
     [codepoints ''look'', codepoints ''see'', codepoints ''pet'', codepoints ''look'']"
  using loaded_is_permanent [of ex_sys dup_lib
      "[OpLoadMemes, OpCheckResources, OpGenerateMeme (Event []) (codepoints ''look''),
        OpRenderMemeListImage, OpLoadMemes]"]
  by (simp add: ex_sys_eval)

section \<open>The invariant holds in every state a history of calls reaches\<close>

lemma catalog_inv_init: "catalog_inv (mgr init_sys)"
  by (simp add: catalog_inv_def init_sys_def init_manager_def)

lemma catalog_inv_load:
  assumes "catalog_inv (mgr s)"
  shows "catalog_inv (mgr (load_memes L s))"
proof (cases "memes_loaded (mgr s) \<or> \<not> available L")
  case True
  with assms show ?thesis by (auto simp: load_memes_def)
next
  case False
  with assms show ?thesis
    by (cases "get_memes L (fetch_calls s)")
      (auto simp: load_memes_def catalog_inv_def Let_def split: if_splits)
qed

lemma catalog_inv_check:
  "catalog_inv (mgr s) \<Longrightarrow> catalog_inv (mgr (check_resources L s))"
  by (simp add: check_resources_def catalog_inv_load split: option.splits)

lemma catalog_inv_run: "catalog_inv (mgr s) \<Longrightarrow> catalog_inv (mgr (run L c s))"
  by (cases c) (simp_all add: catalog_inv_load catalog_inv_check generate_meme_state)

lemma catalog_inv_exec: "catalog_inv (mgr s) \<Longrightarrow> catalog_inv (mgr (exec L cs s))"
  by (induction cs arbitrary: s) (simp_all add: catalog_inv_run)

lemma catalog_inv_reachable: "catalog_inv (mgr (exec L cs init_sys))"
  by (rule catalog_inv_exec) (rule catalog_inv_init)

lemma reachable_unloaded_empty:
  assumes "\<not> memes_loaded (mgr (exec L cs init_sys))"
  shows "memes (mgr (exec L cs init_sys)) = [] \<and> meme_keywords (mgr (exec L cs init_sys)) = []"
  using catalog_inv_reachable [of L cs] assms by (simp add: catalog_inv_def)

lemma reachable_loaded_flat:
  assumes "memes_loaded (mgr (exec L cs init_sys))"
  shows "memes (mgr (exec L cs init_sys)) \<noteq> [] \<and>
         meme_keywords (mgr (exec L cs init_sys)) = flatten_keywords (memes (mgr (exec L cs init_sys)))"
  using catalog_inv_reachable [of L cs] assms by (simp add: catalog_inv_def)

text \<open>
  C7. In a state that a history of calls has reached, with the flag still false and the
  library importable: if the fetch of this load returns an empty catalog, or \<open>get_memes()\<close>
  raises, or flattening the keywords raises, then after \<open>_load_memes\<close> the flag is false
  and the catalog and the keyword list are empty. The fetch has been consumed, so the next
  load fetches again, and it loads whatever non-empty catalog that fetch returns.
\<close>

theorem failed_load_leaves_unloaded:
  assumes "s = exec L cs init_sys"
    and "\<not> memes_loaded (mgr s)"
    and "available L"
    and "get_memes L (fetch_calls s) = Returned [] \<or>
         get_memes L (fetch_calls s) = Raised e \<or>
         get_memes L (fetch_calls s) = FlattenRaised ms e"
  shows "\<not> memes_loaded (mgr (load_memes L s)) \<and>
         memes (mgr (load_memes L s)) = [] \<and>
         meme_keywords (mgr (load_memes L s)) = [] \<and>
         fetch_calls (load_memes L s) = Suc (fetch_calls s) \<and>
         (get_memes L (Suc (fetch_calls s)) = Returned ms' \<and> ms' \<noteq> [] \<longrightarrow>
            mgr (load_memes L (load_memes L s)) =
              \<lparr>memes = ms', meme_keywords = flatten_keywords ms', memes_loaded = True\<rparr>)"
proof -
  from assms(1,2) have empty: "memes (mgr s) = []" "meme_keywords (mgr s) = []"
    using reachable_unloaded_empty [of L cs] by simp_all
  from assms(4) have first: "\<not> memes_loaded (mgr (load_memes L s)) \<and>
         memes (mgr (load_memes L s)) = [] \<and>
         meme_keywords (mgr (load_memes L s)) = [] \<and>
         fetch_calls (load_memes L s) = Suc (fetch_calls s)"
    using assms(2,3) empty by (auto simp: load_memes_def Let_def split: if_splits)
  have retry: "mgr (load_memes L (load_memes L s)) =
      \<lparr>memes = ms', meme_keywords = flatten_keywords ms', memes_loaded = True\<rparr>"
    if "get_memes L (Suc (fetch_calls s)) = Returned ms'" "ms' \<noteq> []"
  proof -
    let ?t = "load_memes L s"
    from first have t: "\<not> memes_loaded (mgr ?t)" "fetch_calls ?t = Suc (fetch_calls s)"
      by simp_all
    with that assms(3) show ?thesis
      by (simp add: load_memes_def [of L ?t] Let_def)
  qed
  from first retry show ?thesis by blast
qed

lemma fail_sys_eval:
  "fail_sys = \<lparr>mgr = \<lparr>memes = [], meme_keywords = [], memes_loaded = False\<rparr>,
                fetch_calls = 1\<rparr>"
  by (simp add: fail_sys_def fail_lib_def ex_lib_def init_sys_def init_manager_def
      load_memes_def)

text \<open>
  An empty fetch at construction, then a successful retry; and, after a fetch that raised,
  a fetch whose flattening raises, then a successful retry.
\<close>

theorem failed_load_leaves_unloaded_witness:
  "init_sys = exec ex_lib [] init_sys \<and>
   \<not> memes_loaded (mgr init_sys) \<and> available ex_lib \<and>
   get_memes ex_lib (fetch_calls init_sys) = Returned [] \<and>
   \<not> memes_loaded (mgr (load_memes ex_lib init_sys)) \<and>
   memes (mgr (load_memes ex_lib init_sys)) = [] \<and>
   meme_keywords (mgr (load_memes ex_lib init_sys)) = [] \<and>
   fetch_calls (load_memes ex_lib init_sys) = 1 \<and>
   get_memes ex_lib (Suc (fetch_calls init_sys)) = Returned [ex_m1, ex_m2] \<and>
   mgr (load_memes ex_lib (load_memes ex_lib init_sys)) =
     \<lparr>memes = [ex_m1, ex_m2], meme_keywords = flatten_keywords [ex_m1, ex_m2],
      memes_loaded = True\<rparr> \<and>
   init_sys = exec fail_lib [] init_sys \<and>
   get_memes fail_lib (fetch_calls init_sys) = Raised (AttributeError (codepoints ''info'')) \<and>
   \<not> memes_loaded (mgr (load_memes fail_lib init_sys)) \<and>
   memes (mgr (load_memes fail_lib init_sys)) = [] \<and>
   meme_keywords (mgr (load_memes fail_lib init_sys)) = [] \<and>
   fail_sys = exec fail_lib [OpLoadMemes] init_sys \<and>
   \<not> memes_loaded (mgr fail_sys) \<and> available fail_lib \<and>
   get_memes fail_lib (fetch_calls fail_sys) =
     FlattenRaised [ex_m1] (OtherError (codepoints ''resources'')) \<and>
   \<not> memes_loaded (mgr (load_memes fail_lib fail_sys)) \<and>
   memes (mgr (load_memes fail_lib fail_sys)) = [] \<and>
   meme_keywords (mgr (load_memes fail_lib fail_sys)) = [] \<and>
   fetch_calls (load_memes fail_lib fail_sys) = 2 \<and>
   mgr (load_memes fail_lib (load_memes fail_lib fail_sys)) =
     \<lparr>memes = [ex_m1], meme_keywords = flatten_keywords [ex_m1], memes_loaded = True\<rparr>"
proof -
  have a: "init_sys = exec ex_lib [] init_sys" by simp
  have b: "\<not> memes_loaded (mgr init_sys)" by (simp add: init_sys_def init_manager_def)
  have c: "available ex_lib" by (simp add: ex_lib_def)
  have d: "get_memes ex_lib (fetch_calls init_sys) = Returned []"
    by (simp add: ex_lib_def init_sys_def)
  have d': "get_memes ex_lib (Suc (fetch_calls init_sys)) = Returned [ex_m1, ex_m2]"
    by (simp add: ex_lib_def init_sys_def)
  have f: "fail_sys = exec fail_lib [OpLoadMemes] init_sys" by (simp add: fail_sys_def)
  have g: "\<not> memes_loaded (mgr fail_sys)" by (simp add: fail_sys_eval)
  have h: "available fail_lib" by (simp add: fail_lib_def ex_lib_def)
  have i: "get_memes fail_lib (fetch_calls fail_sys) =
      FlattenRaised [ex_m1] (OtherError (codepoints ''resources''))"
    by (simp add: fail_lib_def fail_sys_eval)
  have i': "get_memes fail_lib (Suc (fetch_calls fail_sys)) = Returned [ex_m1]"
    by (simp add: fail_lib_def fail_sys_eval)
  from failed_load_leaves_unloaded [of init_sys ex_lib "[]" _ _ "[ex_m1, ex_m2]", OF a b c] d d'
  have r1: "\<not> memes_loaded (mgr (load_memes ex_lib init_sys)) \<and>
     memes (mgr (load_memes ex_lib init_sys)) = [] \<and>
     meme_keywords (mgr (load_memes ex_lib init_sys)) = [] \<and>
     fetch_calls (load_memes ex_lib init_sys) = 1 \<and>
     mgr (load_memes ex_lib (load_memes ex_lib init_sys)) =
       \<lparr>memes = [ex_m1, ex_m2], meme_keywords = flatten_keywords [ex_m1, ex_m2],
        memes_loaded = True\<rparr>"
    by (simp add: init_sys_def)
  from failed_load_leaves_unloaded [of fail_sys fail_lib "[OpLoadMemes]"
      "OtherError (codepoints ''resources'')" "[ex_m1]" "[ex_m1]", OF f g h] i i'
  have r2: "\<not> memes_loaded (mgr (load_memes fail_lib fail_sys)) \<and>
     memes (mgr (load_memes fail_lib fail_sys)) = [] \<and>
     meme_keywords (mgr (load_memes fail_lib fail_sys)) = [] \<and>
     fetch_calls (load_memes fail_lib fail_sys) = 2 \<and>
     mgr (load_memes fail_lib (load_memes fail_lib fail_sys)) =
       \<lparr>memes = [ex_m1], meme_keywords = flatten_keywords [ex_m1], memes_loaded = True\<rparr>"
    by (simp add: fail_sys_eval)
  have a3: "init_sys = exec fail_lib [] init_sys" by simp
  have d3: "get_memes fail_lib (fetch_calls init_sys) =
      Raised (AttributeError (codepoints ''info''))"
    by (simp add: fail_lib_def init_sys_def)
  from failed_load_leaves_unloaded [of init_sys fail_lib "[]"
      "AttributeError (codepoints ''info'')", OF a3 b h] d3
  have r3: "\<not> memes_loaded (mgr (load_memes fail_lib init_sys)) \<and>
     memes (mgr (load_memes fail_lib init_sys)) = [] \<and>
     meme_keywords (mgr (load_memes fail_lib init_sys)) = []"
    by simp
  from a b c d d' f g h i r1 r2 a3 d3 r3 show ?thesis by blast
qed

section \<open>Keyword matching: \<open>match_meme_keyword\<close>\<close>

lemma next_fuzzy_None_iff:
  "next_fuzzy ks text = None \<longleftrightarrow> (\<forall>k \<in> set ks. \<not> sublist k text)"
  by (induction ks) auto

lemma next_fuzzy_first:
  assumes "\<forall>p \<in> set pre. \<not> sublist p text" and "sublist k text"
  shows "next_fuzzy (pre @ k # post) text = Some k"
  using assms by (induction pre) auto

lemma next_fuzzy_Some_split:
  assumes "next_fuzzy ks text = Some k"
  shows "\<exists>pre post. ks = pre @ k # post \<and> sublist k text \<and> (\<forall>p \<in> set pre. \<not> sublist p text)"
  using assms
proof (induction ks)
  case Nil
  then show ?case by simp
next
  case (Cons a ks)
  show ?case
  proof (cases "sublist a text")
    case True
    with Cons.prems have "a = k" by simp
    with True have "a # ks = [] @ k # ks \<and> sublist k text \<and> (\<forall>p \<in> set []. \<not> sublist p text)"
      by simp
    then show ?thesis by blast
  next
    case False
    with Cons.prems have "next_fuzzy ks text = Some k" by simp
    from Cons.IH [OF this] obtain pre post where e: "ks = pre @ k # post"
      and h: "sublist k text" and n: "\<forall>p \<in> set pre. \<not> sublist p text"
      by blast
    from e have "a # ks = (a # pre) @ k # post" by simp
    moreover from n False have "\<forall>p \<in> set (a # pre). \<not> sublist p text" by simp
    ultimately show ?thesis using h by blast
  qed
qed

lemma next_fuzzy_Some_iff:
  "next_fuzzy ks text = Some k \<longleftrightarrow>
     (\<exists>pre post. ks = pre @ k # post \<and> sublist k text \<and> (\<forall>p \<in> set pre. \<not> sublist p text))"
  using next_fuzzy_Some_split next_fuzzy_first by blast

text \<open>With a first token, the exact scan never raises and looks for that token.\<close>

lemma next_exact_None_iff:
  assumes "py_split text = t # ts"
  shows "next_exact ks text = Inr None \<longleftrightarrow> t \<notin> set ks"
  using assms by (induction ks) auto

lemma next_exact_Some_iff:
  assumes "py_split text = t # ts"
  shows "next_exact ks text = Inr (Some k) \<longleftrightarrow> k = t \<and> t \<in> set ks"
  using assms by (induction ks) auto

lemma next_exact_returns:
  assumes "py_split text = t # ts"
  shows "next_exact ks text = Inr (if t \<in> set ks then Some t else None)"
  using assms by (induction ks) auto

text \<open>Without a token, the scan raises as soon as there is a keyword to test.\<close>

lemma next_exact_no_token:
  assumes "py_split text = []"
  shows "next_exact ks text = (if ks = [] then Inr None else Inl IndexError)"
  using assms by (cases ks) auto

subsection \<open>\<open>str.split()\<close>: the first token\<close>

lemma split_from_token:
  assumes "\<forall>c \<in> set t. \<not> isspace c"
  shows "split_from cur (t @ rest) = split_from (rev t @ cur) rest"
  using assms by (induction t arbitrary: cur) auto

lemma split_from_spaces:
  assumes "\<forall>c \<in> set ws. isspace c"
  shows "split_from [] (ws @ rest) = split_from [] rest"
  using assms by (induction ws) auto

text \<open>
  \<open>text.split()[0]\<close> is the first whitespace-delimited token: after any leading whitespace,
  the maximal run of non-whitespace characters.
\<close>

lemma py_split_first_token:
  assumes "\<forall>c \<in> set ws. isspace c" and "t \<noteq> []" and "\<forall>c \<in> set t. \<not> isspace c"
    and "rest = [] \<or> isspace (hd rest)"
  shows "py_split (ws @ t @ rest) = t # py_split (tl rest)"
proof -
  have "py_split (ws @ t @ rest) = split_from (rev t) rest"
    using assms(1,3) by (simp add: py_split_def split_from_spaces split_from_token)
  also have "\<dots> = t # py_split (tl rest)"
    using assms(2,4) by (cases rest) (auto simp: py_split_def)
  finally show ?thesis .
qed

lemma split_from_Nil_iff:
  "split_from cur text = [] \<longleftrightarrow> cur = [] \<and> (\<forall>c \<in> set text. isspace c)"
  by (induction "text" arbitrary: cur) auto

text \<open>The texts without a first token are the empty and the whitespace-only ones.\<close>

lemma py_split_Nil_iff: "py_split text = [] \<longleftrightarrow> (\<forall>c \<in> set text. isspace c)"
  by (simp add: py_split_def split_from_Nil_iff)

lemma flatten_keywords_concat: "flatten_keywords ms = concat (map keywords ms)"
  by (induction ms) simp_all

lemma three_sys_eval:
  "three_sys = \<lparr>mgr = \<lparr>memes = [ex_m1, ex_m2, ex_m3],
                         meme_keywords = [codepoints ''look'', codepoints ''see'',
                                          codepoints ''pet'', codepoints ''look'',
                                          codepoints ''hug'', codepoints ''see''],
                         memes_loaded = True\<rparr>,
                 fetch_calls = 1\<rparr>"
  by (simp add: three_sys_def three_lib_def ex_lib_def init_sys_def init_manager_def
      load_memes_def ex_m1_def ex_m2_def ex_m3_def)

text \<open>
  C2. In a loaded state that a history of calls has reached, the keyword list is the
  concatenation, in catalog order, of the templates' keyword lists, each in its own order.
  With \<open>fuzzy_match\<close>, \<open>match_meme_keyword\<close> returns \<open>k\<close> exactly when that concatenation
  splits as \<open>pre @ k # post\<close> where \<open>k\<close> occurs in \<open>text\<close> as a substring and no keyword of
  \<open>pre\<close> does, and none exactly when no keyword does. Without \<open>fuzzy_match\<close>, for a text
  whose first whitespace-delimited token is \<open>t\<close>, it returns \<open>k\<close> exactly when the
  concatenation splits as \<open>pre @ k # post\<close> where \<open>k\<close> equals \<open>t\<close> and no keyword of \<open>pre\<close>
  does, and none exactly when no keyword equals \<open>t\<close>; for a text without a token it returns
  no keyword.
\<close>

theorem match_meme_keyword_first:
  assumes "st = mgr (exec L cs init_sys)" and "memes_loaded st"
  shows "meme_keywords st = concat (map keywords (memes st)) \<and>
         (match_meme_keyword st text True = Inr (Some k) \<longleftrightarrow>
            (\<exists>pre post. concat (map keywords (memes st)) = pre @ k # post \<and> sublist k text \<and>
               (\<forall>p \<in> set pre. \<not> sublist p text))) \<and>
         (match_meme_keyword st text True = Inr None \<longleftrightarrow>
            (\<forall>p \<in> set (concat (map keywords (memes st))). \<not> sublist p text)) \<and>
         (py_split text = t # ts \<longrightarrow>
            (match_meme_keyword st text False = Inr (Some k) \<longleftrightarrow>
               (\<exists>pre post. concat (map keywords (memes st)) = pre @ k # post \<and> k = t \<and>
                  (\<forall>p \<in> set pre. p \<noteq> t)))) \<and>
         (py_split text = t # ts \<longrightarrow>
            (match_meme_keyword st text False = Inr None \<longleftrightarrow>
               t \<notin> set (concat (map keywords (memes st))))) \<and>
         (py_split text = [] \<longrightarrow> match_meme_keyword st text False \<noteq> Inr (Some k))"
proof -
  let ?kws = "concat (map keywords (memes st))"
  from assms have flat: "meme_keywords st = ?kws"
    using reachable_loaded_flat [of L cs] by (simp add: flatten_keywords_concat)
  have fz: "match_meme_keyword st text True = Inr (next_fuzzy ?kws text)"
    using assms(2) flat by (simp add: match_meme_keyword_def)
  have ex: "match_meme_keyword st text False = next_exact ?kws text"
    using assms(2) flat by (simp add: match_meme_keyword_def)
  have f1: "match_meme_keyword st text True = Inr (Some k) \<longleftrightarrow>
      (\<exists>pre post. ?kws = pre @ k # post \<and> sublist k text \<and>
         (\<forall>p \<in> set pre. \<not> sublist p text))"
    by (simp add: fz next_fuzzy_Some_iff)
  have f2: "match_meme_keyword st text True = Inr None \<longleftrightarrow>
      (\<forall>p \<in> set ?kws. \<not> sublist p text)"
    by (simp add: fz next_fuzzy_None_iff)
  have e1: "match_meme_keyword st text False = Inr (Some k) \<longleftrightarrow>
      (\<exists>pre post. ?kws = pre @ k # post \<and> k = t \<and> (\<forall>p \<in> set pre. p \<noteq> t))"
    if tok: "py_split text = t # ts"
  proof -
    have "t \<in> set ?kws \<longleftrightarrow>
        (\<exists>pre post. ?kws = pre @ t # post \<and> (\<forall>p \<in> set pre. p \<noteq> t))"
      (is "?A \<longleftrightarrow> ?B")
    proof
      assume ?A
      then obtain pre post where "?kws = pre @ t # post" "t \<notin> set pre"
        using split_list_first [of t ?kws] by blast
      then show ?B by blast
    next
      assume ?B
      then obtain pre post where "?kws = pre @ t # post" by blast
      then show ?A by simp
    qed
    then show ?thesis by (auto simp: ex next_exact_Some_iff [OF tok])
  qed
  have e2: "match_meme_keyword st text False = Inr None \<longleftrightarrow> t \<notin> set ?kws"
    if tok: "py_split text = t # ts"
    by (simp only: ex next_exact_None_iff [OF tok])
  have e3: "match_meme_keyword st text False \<noteq> Inr (Some k)" if "py_split text = []"
    using that by (simp add: ex next_exact_no_token)
  from flat f1 f2 e1 e2 e3 show ?thesis by blast
qed

text \<open>
  On the catalog of two templates the keyword list is \<open>look, see, pet, look\<close>. In \<open>pet look\<close>
  both \<open>pet\<close> and \<open>look\<close> occur; \<open>look\<close> comes first in the keyword list and is returned. The
  first token of \<open>pet look\<close> after leading blanks is \<open>pet\<close>, which the exact mode returns. On
  the catalog of three templates the keyword list is \<open>look, see, pet, look, hug, see\<close>; in
  \<open>hug pet see\<close> the keywords \<open>see\<close> (first template), \<open>pet\<close> (second) and \<open>hug\<close> (third)
  occur, and \<open>see\<close> is returned.
\<close>

theorem match_meme_keyword_first_witness:
  "mgr ex_sys = mgr (exec ex_lib [OpCheckResources, OpLoadMemes] init_sys) \<and>
   memes_loaded (mgr ex_sys) \<and>
   meme_keywords (mgr ex_sys) =
     [codepoints ''look'', codepoints ''see'', codepoints ''pet'', codepoints ''look''] \<and>
   match_meme_keyword (mgr ex_sys) (codepoints ''pet look'') True =
     Inr (Some (codepoints ''look'')) \<and>
   py_split (codepoints ''  pet look'') = [codepoints ''pet'', codepoints ''look''] \<and>
   match_meme_keyword (mgr ex_sys) (codepoints ''  pet look'') False =
     Inr (Some (codepoints ''pet'')) \<and>
   mgr three_sys = mgr (exec three_lib [OpLoadMemes] init_sys) \<and>
   memes_loaded (mgr three_sys) \<and>
   memes (mgr three_sys) = [ex_m1, ex_m2, ex_m3] \<and>
   meme_keywords (mgr three_sys) =
     [codepoints ''look'', codepoints ''see'', codepoints ''pet'', codepoints ''look'',
      codepoints ''hug'', codepoints ''see''] \<and>
   match_meme_keyword (mgr three_sys) (codepoints ''hug pet see'') True =
     Inr (Some (codepoints ''see''))"
proof -
  have a: "mgr ex_sys = mgr (exec ex_lib [OpCheckResources, OpLoadMemes] init_sys)"
    by (simp add: ex_sys_def)
  have b: "memes_loaded (mgr ex_sys)" by (simp add: ex_sys_eval)
  have sp: "py_split (codepoints ''  pet look'') = [codepoints ''pet'', codepoints ''look'']"
    by (simp add: py_split_def codepoints_def isspace_def)
  have sub: "sublist (codepoints ''look'') (codepoints ''pet look'')"
    by (simp add: codepoints_def sublist_Cons_right)
  note T = match_meme_keyword_first [OF a b]
  have c: "concat (map keywords (memes (mgr ex_sys))) =
      [codepoints ''look'', codepoints ''see'', codepoints ''pet'', codepoints ''look'']"
    by (simp add: ex_sys_eval ex_m1_def ex_m2_def)
  from T [of "codepoints ''pet look''" "codepoints ''look''"] c
  have kws: "meme_keywords (mgr ex_sys) =
      [codepoints ''look'', codepoints ''see'', codepoints ''pet'', codepoints ''look'']"
    by simp
  from c sub have "\<exists>pre post. concat (map keywords (memes (mgr ex_sys))) =
        pre @ codepoints ''look'' # post \<and>
      sublist (codepoints ''look'') (codepoints ''pet look'') \<and>
      (\<forall>p \<in> set pre. \<not> sublist p (codepoints ''pet look''))"
    by (intro exI [of _ "[]"] exI [of _ "[codepoints ''see'', codepoints ''pet'', codepoints ''look'']"])
      simp
  with T [of "codepoints ''pet look''" "codepoints ''look''"]
  have r1: "match_meme_keyword (mgr ex_sys) (codepoints ''pet look'') True =
      Inr (Some (codepoints ''look''))"
    by blast
  have "\<exists>pre post. concat (map keywords (memes (mgr ex_sys))) = pre @ codepoints ''pet'' # post \<and>
      codepoints ''pet'' = codepoints ''pet'' \<and> (\<forall>p \<in> set pre. p \<noteq> codepoints ''pet'')"
    by (intro exI [of _ "[codepoints ''look'', codepoints ''see'']"] exI [of _ "[codepoints ''look'']"])
      (simp add: c codepoints_def)
  with T [of "codepoints ''  pet look''" "codepoints ''pet''" "codepoints ''pet''" "[codepoints ''look'']"] sp
  have r2: "match_meme_keyword (mgr ex_sys) (codepoints ''  pet look'') False =
      Inr (Some (codepoints ''pet''))"
    by blast
  have a3: "mgr three_sys = mgr (exec three_lib [OpLoadMemes] init_sys)"
    by (simp add: three_sys_def)
  have b3: "memes_loaded (mgr three_sys)" by (simp add: three_sys_eval)
  have m3: "memes (mgr three_sys) = [ex_m1, ex_m2, ex_m3]" by (simp add: three_sys_eval)
  note T3 = match_meme_keyword_first [OF a3 b3]
  have c3: "concat (map keywords (memes (mgr three_sys))) =
      [codepoints ''look'', codepoints ''see'', codepoints ''pet'', codepoints ''look'',
       codepoints ''hug'', codepoints ''see'']"
    by (simp add: three_sys_eval ex_m1_def ex_m2_def ex_m3_def)
  from T3 [of "codepoints ''hug pet see''" "codepoints ''see''"] c3
  have kws3: "meme_keywords (mgr three_sys) =
      [codepoints ''look'', codepoints ''see'', codepoints ''pet'', codepoints ''look'',
       codepoints ''hug'', codepoints ''see'']"
    by simp
  have sub3: "sublist (codepoints ''see'') (codepoints ''hug pet see'')"
    by (simp add: codepoints_def sublist_Cons_right)
  have nsub3: "\<not> sublist (codepoints ''look'') (codepoints ''hug pet see'')"
    by (simp add: codepoints_def sublist_Cons_right)
  from c3 sub3 nsub3
  have "\<exists>pre post. concat (map keywords (memes (mgr three_sys))) =
        pre @ codepoints ''see'' # post \<and>
      sublist (codepoints ''see'') (codepoints ''hug pet see'') \<and>
      (\<forall>p \<in> set pre. \<not> sublist p (codepoints ''hug pet see''))"
    by (intro exI [of _ "[codepoints ''look'']"]
        exI [of _ "[codepoints ''pet'', codepoints ''look'', codepoints ''hug'', codepoints ''see'']"])
      simp
  with T3 [of "codepoints ''hug pet see''" "codepoints ''see''"]
  have r3: "match_meme_keyword (mgr three_sys) (codepoints ''hug pet see'') True =
      Inr (Some (codepoints ''see''))"
    by blast
  from a b kws r1 sp r2 a3 b3 m3 kws3 r3 show ?thesis by blast
qed

text \<open>
  Where no keyword matches: the fuzzy mode returns none; the exact mode returns none when
  the text has a first token, and raises \<open>IndexError\<close> when it has none (the text is empty
  or all whitespace) and there is a keyword to compare.
\<close>

lemma match_fuzzy_no_match:
  assumes "memes_loaded st" and "\<forall>k \<in> set (meme_keywords st). \<not> sublist k text"
  shows "match_meme_keyword st text True = Inr None"
  using assms by (simp add: match_meme_keyword_def next_fuzzy_None_iff)

lemma match_exact_no_match:
  assumes "memes_loaded st" and "py_split text = t # ts" and "t \<notin> set (meme_keywords st)"
  shows "match_meme_keyword st text False = Inr None"
  using assms by (simp add: match_meme_keyword_def next_exact_None_iff)

lemma match_exact_blank_text:
  assumes "memes_loaded st" and "meme_keywords st \<noteq> []" and "\<forall>c \<in> set text. isspace c"
  shows "match_meme_keyword st text False = Inl IndexError"
  using assms by (simp add: match_meme_keyword_def next_exact_no_token py_split_Nil_iff)

text \<open>
  C3 (the code departs from it). On the loaded example catalog, the exact mode applied to
  the empty text and to a whitespace-only text does not return none: \<open>text.split()[0]\<close>
  raises \<open>IndexError\<close>.
\<close>

theorem match_exact_blank_text_raises:
  "memes_loaded (mgr ex_sys) \<and>
   match_meme_keyword (mgr ex_sys) [] False = Inl IndexError \<and>
   match_meme_keyword (mgr ex_sys) (codepoints ''   '') False = Inl IndexError"
  by (simp add: ex_sys_eval match_meme_keyword_def py_split_def codepoints_def isspace_def)

section \<open>Template info: \<open>get_meme_info\<close>\<close>

lemma lines_from_line:
  assumes "nl \<notin> set l"
  shows "lines_from cur (l @ nl # rest) = (rev cur @ l) # lines_from [] rest"
  using assms by (induction l arbitrary: cur) auto

lemma lines_of_unlines:
  assumes "\<forall>l \<in> set ls. nl \<notin> set l"
  shows "lines_of (concat (map (\<lambda>l. l @ [nl]) ls)) = ls"
  using assms
proof (induction ls)
  case Nil
  then show ?case by (simp add: lines_of_def)
next
  case (Cons a ls)
  then have "nl \<notin> set a" and IH: "lines_from [] (concat (map (\<lambda>l. l @ [nl]) ls)) = ls"
    by (simp_all add: lines_of_def)
  then show ?case
    by (simp add: lines_of_def lines_from_line)
qed

text \<open>Formatted integers, and lists of line-feed-free \<open>repr\<close>s, contain no line feed.\<close>

lemma dec_digits_no_nl: "nl \<notin> set (dec_digits n)"
proof (induction n rule: dec_digits.induct)
  case (1 n)
  show ?case
  proof (cases "n < 10")
    case True
    then show ?thesis by (simp add: dec_digits.simps [of n] nl_def)
  next
    case False
    with 1 show ?thesis by (simp add: dec_digits.simps [of n] nl_def)
  qed
qed

lemma py_str_int_no_nl: "nl \<notin> set (py_str_int i)"
proof -
  have "nl \<noteq> 45" by (simp add: nl_def)
  then show ?thesis by (simp add: py_str_int_def dec_digits_no_nl)
qed

lemma join_comma_no_nl:
  assumes "\<forall>x \<in> set xs. nl \<notin> set x"
  shows "nl \<notin> set (join_comma xs)"
  using assms by (induction xs rule: join_comma.induct) (simp_all add: nl_def)

lemma py_repr_list_no_nl:
  assumes "\<forall>x. nl \<notin> set (py_repr L x)"
  shows "nl \<notin> set (py_repr_list L xs)"
proof -
  have "nl \<noteq> 91" "nl \<noteq> 93" by (simp_all add: nl_def)
  moreover from assms have "nl \<notin> set (join_comma (map (py_repr L) xs))"
    by (intro join_comma_no_nl) simp
  ultimately show ?thesis by (simp add: py_repr_list_def)
qed

text \<open>The assembled description is the specification's lines, each ended by a line feed.\<close>

lemma meme_info_text_unlines:
  "meme_info_text L m = concat (map (\<lambda>l. l @ [nl]) (spec_info_lines L m))"
  by (simp add: meme_info_text_def spec_info_lines_def Let_def)

lemma spec_info_lines_no_nl:
  assumes "nl \<notin> set (key m)" and "\<forall>x. nl \<notin> set (py_repr L x)"
  shows "\<forall>l \<in> set (spec_info_lines L m). nl \<notin> set l"
proof -
  have lbl: "nl \<notin> set lbl_name" "nl \<notin> set lbl_alias" "nl \<notin> set lbl_images"
    "nl \<notin> set unit_images" "nl \<notin> set lbl_texts" "nl \<notin> set unit_texts"
    "nl \<notin> set lbl_default_texts" "nl \<notin> set lbl_tags" "nl \<noteq> 126"
    by (simp_all add: nl_def lbl_name_def lbl_alias_def lbl_images_def unit_images_def
        lbl_texts_def unit_texts_def lbl_default_texts_def lbl_tags_def)
  from assms(2) have rp: "nl \<notin> set (py_repr_list L xs)" for xs
    by (rule py_repr_list_no_nl)
  show ?thesis
    using assms(1) lbl
    by (auto simp: spec_info_lines_def py_str_int_no_nl rp split: if_splits)
qed

lemma lines_of_meme_info_text:
  assumes "nl \<notin> set (key m)" and "\<forall>x. nl \<notin> set (py_repr L x)"
  shows "lines_of (meme_info_text L m) = spec_info_lines L m"
  using spec_info_lines_no_nl [OF assms]
  by (simp only: meme_info_text_unlines lines_of_unlines)

text \<open>Which of the lines begin with which label.\<close>

lemma name_line_iff:
  "(\<exists>l \<in> set (spec_info_lines L m). prefix lbl_name l) \<longleftrightarrow> key m \<noteq> []"
  by (auto simp: spec_info_lines_def lbl_name_def lbl_alias_def lbl_images_def lbl_texts_def
      lbl_default_texts_def lbl_tags_def split: if_splits)

lemma images_line_iff:
  "(\<exists>l \<in> set (spec_info_lines L m). prefix lbl_images l) \<longleftrightarrow> 0 < max_images (params_type m)"
  by (auto simp: spec_info_lines_def lbl_name_def lbl_alias_def lbl_images_def lbl_texts_def
      lbl_default_texts_def lbl_tags_def split: if_splits)

lemma texts_line_iff:
  "(\<exists>l \<in> set (spec_info_lines L m). prefix lbl_texts l) \<longleftrightarrow> 0 < max_texts (params_type m)"
  by (auto simp: spec_info_lines_def lbl_name_def lbl_alias_def lbl_images_def lbl_texts_def
      lbl_default_texts_def lbl_tags_def split: if_splits)

lemma default_texts_line_iff:
  "(\<exists>l \<in> set (spec_info_lines L m). prefix lbl_default_texts l) \<longleftrightarrow>
     default_texts (params_type m) \<noteq> []"
  by (auto simp: spec_info_lines_def lbl_name_def lbl_alias_def lbl_images_def lbl_texts_def
      lbl_default_texts_def lbl_tags_def split: if_splits)

lemma tags_line_iff:
  "(\<exists>l \<in> set (spec_info_lines L m). prefix lbl_tags l) \<longleftrightarrow> tags m \<noteq> []"
  by (auto simp: spec_info_lines_def lbl_name_def lbl_alias_def lbl_images_def lbl_texts_def
      lbl_default_texts_def lbl_tags_def split: if_splits)

text \<open>
  C8. For a keyword that resolves to the template \<open>m\<close>: if the preview call returns, then
  \<open>get_meme_info\<close> returns the pair of the description and the preview bytes, the content
  of the buffer when the binding returned a buffer and the bytes themselves otherwise (an
  exception of the preview call is passed on). The description is the concatenation of
  the lines of \<open>spec_info_lines\<close>, each ended by a line feed. When neither the key nor a
  \<open>repr\<close> contains a line feed, these are exactly the lines of the description, so that:
  a line beginning with the name label is there only if the key is not empty; one
  beginning with the image-count label only if \<open>max_images > 0\<close>, and it shows the single
  count when \<open>min_images = max_images\<close> and the range otherwise; the same for the text
  count; a default-texts line only if there are default texts; a tags line only if there
  are tags.
\<close>

theorem get_meme_info_description:
  assumes "find_meme st keyword = Some m"
  shows "(generate_preview L m = Inr previewed \<longrightarrow>
            get_meme_info L st keyword =
              Inr (Some (meme_info_text L m,
                         (case previewed of Buffer b \<Rightarrow> getvalue b | Raw b \<Rightarrow> b)))) \<and>
         (generate_preview L m = Inl e \<longrightarrow> get_meme_info L st keyword = Inl e) \<and>
         meme_info_text L m = concat (map (\<lambda>l. l @ [nl]) (spec_info_lines L m)) \<and>
         (nl \<notin> set (key m) \<and> (\<forall>x. nl \<notin> set (py_repr L x)) \<longrightarrow>
            lines_of (meme_info_text L m) = spec_info_lines L m \<and>
            ((\<exists>l \<in> set (lines_of (meme_info_text L m)). prefix lbl_name l) \<longleftrightarrow> key m \<noteq> []) \<and>
            ((\<exists>l \<in> set (lines_of (meme_info_text L m)). prefix lbl_images l) \<longleftrightarrow>
               0 < max_images (params_type m)) \<and>
            (0 < max_images (params_type m) \<and>
             min_images (params_type m) = max_images (params_type m) \<longrightarrow>
               lbl_images @ py_str_int (min_images (params_type m)) @ unit_images
                 \<in> set (lines_of (meme_info_text L m))) \<and>
            (0 < max_images (params_type m) \<and>
             min_images (params_type m) \<noteq> max_images (params_type m) \<longrightarrow>
               lbl_images @ py_str_int (min_images (params_type m)) @ [126] @
               py_str_int (max_images (params_type m)) @ unit_images
                 \<in> set (lines_of (meme_info_text L m))) \<and>
            ((\<exists>l \<in> set (lines_of (meme_info_text L m)). prefix lbl_texts l) \<longleftrightarrow>
               0 < max_texts (params_type m)) \<and>
            (0 < max_texts (params_type m) \<and>
             min_texts (params_type m) = max_texts (params_type m) \<longrightarrow>
               lbl_texts @ py_str_int (min_texts (params_type m)) @ unit_texts
                 \<in> set (lines_of (meme_info_text L m))) \<and>
            (0 < max_texts (params_type m) \<and>
             min_texts (params_type m) \<noteq> max_texts (params_type m) \<longrightarrow>
               lbl_texts @ py_str_int (min_texts (params_type m)) @ [126] @
               py_str_int (max_texts (params_type m)) @ unit_texts
                 \<in> set (lines_of (meme_info_text L m))) \<and>
            ((\<exists>l \<in> set (lines_of (meme_info_text L m)). prefix lbl_default_texts l) \<longleftrightarrow>
               default_texts (params_type m) \<noteq> []) \<and>
            ((\<exists>l \<in> set (lines_of (meme_info_text L m)). prefix lbl_tags l) \<longleftrightarrow>
               tags m \<noteq> []))"
proof (intro conjI impI)
  show "get_meme_info L st keyword =
      Inr (Some (meme_info_text L m, (case previewed of Buffer b \<Rightarrow> getvalue b | Raw b \<Rightarrow> b)))"
    if "generate_preview L m = Inr previewed"
    using assms that by (simp add: get_meme_info_def)
  show "get_meme_info L st keyword = Inl e" if "generate_preview L m = Inl e"
    using assms that by (simp add: get_meme_info_def)
  show "meme_info_text L m = concat (map (\<lambda>l. l @ [nl]) (spec_info_lines L m))"
    by (rule meme_info_text_unlines)
next
  assume "nl \<notin> set (key m) \<and> (\<forall>x. nl \<notin> set (py_repr L x))"
  then have eq: "lines_of (meme_info_text L m) = spec_info_lines L m"
    by (simp add: lines_of_meme_info_text)
  show "lines_of (meme_info_text L m) = spec_info_lines L m" by (rule eq)
  show "(\<exists>l \<in> set (lines_of (meme_info_text L m)). prefix lbl_name l) \<longleftrightarrow> key m \<noteq> []"
    by (simp only: eq name_line_iff)
  show "(\<exists>l \<in> set (lines_of (meme_info_text L m)). prefix lbl_images l) \<longleftrightarrow>
      0 < max_images (params_type m)"
    by (simp only: eq images_line_iff)
  show "(\<exists>l \<in> set (lines_of (meme_info_text L m)). prefix lbl_texts l) \<longleftrightarrow>
      0 < max_texts (params_type m)"
    by (simp only: eq texts_line_iff)
  show "(\<exists>l \<in> set (lines_of (meme_info_text L m)). prefix lbl_default_texts l) \<longleftrightarrow>
      default_texts (params_type m) \<noteq> []"
    by (simp only: eq default_texts_line_iff)
  show "(\<exists>l \<in> set (lines_of (meme_info_text L m)). prefix lbl_tags l) \<longleftrightarrow> tags m \<noteq> []"
    by (simp only: eq tags_line_iff)
  show "lbl_images @ py_str_int (min_images (params_type m)) @ unit_images
      \<in> set (lines_of (meme_info_text L m))"
    if "0 < max_images (params_type m) \<and>
        min_images (params_type m) = max_images (params_type m)"
    using that by (simp add: eq spec_info_lines_def)
  show "lbl_images @ py_str_int (min_images (params_type m)) @ [126] @
      py_str_int (max_images (params_type m)) @ unit_images
      \<in> set (lines_of (meme_info_text L m))"
    if "0 < max_images (params_type m) \<and>
        min_images (params_type m) \<noteq> max_images (params_type m)"
    using that by (simp add: eq spec_info_lines_def)
  show "lbl_texts @ py_str_int (min_texts (params_type m)) @ unit_texts
      \<in> set (lines_of (meme_info_text L m))"
    if "0 < max_texts (params_type m) \<and>
        min_texts (params_type m) = max_texts (params_type m)"
    using that by (simp add: eq spec_info_lines_def)
  show "lbl_texts @ py_str_int (min_texts (params_type m)) @ [126] @
      py_str_int (max_texts (params_type m)) @ unit_texts
      \<in> set (lines_of (meme_info_text L m))"
    if "0 < max_texts (params_type m) \<and>
        min_texts (params_type m) \<noteq> max_texts (params_type m)"
    using that by (simp add: eq spec_info_lines_def)
qed

lemma ex_lib_repr_no_nl: "\<forall>x. nl \<notin> set (py_repr ex_lib x)"
  by (auto simp: ex_lib_def nl_def split: if_splits)

lemma ex_m1_lines:
  "spec_info_lines ex_lib ex_m1 =
     [lbl_name @ codepoints ''ksyx'',
      lbl_alias @ [91, 39] @ codepoints ''look'' @ [39, 44, 32, 39] @ codepoints ''see'' @ [39, 93],
      lbl_images @ codepoints ''1'' @ unit_images]"
  by (simp add: spec_info_lines_def ex_m1_def ex_lib_def py_repr_list_def py_str_int_def
      dec_digits.simps codepoints_def)

lemma ex_m2_lines:
  "spec_info_lines ex_lib ex_m2 =
     [lbl_name @ codepoints ''petpet'',
      lbl_alias @ [91, 39] @ codepoints ''pet'' @ [39, 44, 32, 39] @ codepoints ''look'' @ [39, 93],
      lbl_images @ codepoints ''0~2'' @ unit_images,
      lbl_texts @ codepoints ''1~3'' @ unit_texts,
      lbl_default_texts @ [91, 39] @ codepoints ''hi'' @ [39, 93],
      lbl_tags @ [91, 39] @ codepoints ''cute'' @ [39, 93]]"
  by (simp add: spec_info_lines_def ex_m2_def ex_lib_def py_repr_list_def py_str_int_def
      dec_digits.simps codepoints_def)

text \<open>
  The alias \<open>look\<close> resolves to the first example template (one image, no text, a buffer
  as preview): a name line, an alias line, the line of the single image count, no text
  line. The key \<open>petpet\<close> resolves to the second one (raw bytes as preview), which has every
  line, the counts as ranges.
\<close>

theorem get_meme_info_description_witness:
  "find_meme (mgr ex_sys) (codepoints ''look'') = Some ex_m1 \<and>
   generate_preview ex_lib ex_m1 = Inr (Buffer (BytesIO ''png'')) \<and>
   get_meme_info ex_lib (mgr ex_sys) (codepoints ''look'') =
     Inr (Some (meme_info_text ex_lib ex_m1, ''png'')) \<and>
   nl \<notin> set (key ex_m1) \<and>
   lines_of (meme_info_text ex_lib ex_m1) =
     [lbl_name @ codepoints ''ksyx'',
      lbl_alias @ [91, 39] @ codepoints ''look'' @ [39, 44, 32, 39] @ codepoints ''see'' @ [39, 93],
      lbl_images @ codepoints ''1'' @ unit_images] \<and>
   find_meme (mgr ex_sys) (codepoints ''petpet'') = Some ex_m2 \<and>
   generate_preview ex_lib ex_m2 = Inr (Raw ''gif'') \<and>
   get_meme_info ex_lib (mgr ex_sys) (codepoints ''petpet'') =
     Inr (Some (meme_info_text ex_lib ex_m2, ''gif'')) \<and>
   nl \<notin> set (key ex_m2) \<and>
   lines_of (meme_info_text ex_lib ex_m2) =
     [lbl_name @ codepoints ''petpet'',
      lbl_alias @ [91, 39] @ codepoints ''pet'' @ [39, 44, 32, 39] @ codepoints ''look'' @ [39, 93],
      lbl_images @ codepoints ''0~2'' @ unit_images,
      lbl_texts @ codepoints ''1~3'' @ unit_texts,
      lbl_default_texts @ [91, 39] @ codepoints ''hi'' @ [39, 93],
      lbl_tags @ [91, 39] @ codepoints ''cute'' @ [39, 93]]"
proof -
  have f1: "find_meme (mgr ex_sys) (codepoints ''look'') = Some ex_m1"
    by (simp add: find_meme_def ex_sys_eval ex_m1_def)
  have f2: "find_meme (mgr ex_sys) (codepoints ''petpet'') = Some ex_m2"
    by (simp add: find_meme_def ex_sys_eval ex_m1_def ex_m2_def codepoints_def)
  have p1: "generate_preview ex_lib ex_m1 = Inr (Buffer (BytesIO ''png''))"
    by (simp add: ex_lib_def ex_m1_def)
  have p2: "generate_preview ex_lib ex_m2 = Inr (Raw ''gif'')"
    by (simp add: ex_lib_def ex_m2_def codepoints_def)
  have k1: "nl \<notin> set (key ex_m1)" by (simp add: ex_m1_def nl_def codepoints_def)
  have k2: "nl \<notin> set (key ex_m2)" by (simp add: ex_m2_def nl_def codepoints_def)
  note T1 = get_meme_info_description [OF f1, of ex_lib "Buffer (BytesIO ''png'')"]
  note T2 = get_meme_info_description [OF f2, of ex_lib "Raw ''gif''"]
  from T1 p1 have g1: "get_meme_info ex_lib (mgr ex_sys) (codepoints ''look'') =
      Inr (Some (meme_info_text ex_lib ex_m1, ''png''))"
    by simp
  from T1 k1 ex_lib_repr_no_nl
  have l1: "lines_of (meme_info_text ex_lib ex_m1) = spec_info_lines ex_lib ex_m1"
    by blast
  from T2 p2 have g2: "get_meme_info ex_lib (mgr ex_sys) (codepoints ''petpet'') =
      Inr (Some (meme_info_text ex_lib ex_m2, ''gif''))"
    by simp
  from T2 k2 ex_lib_repr_no_nl
  have l2: "lines_of (meme_info_text ex_lib ex_m2) = spec_info_lines ex_lib ex_m2"
    by blast
  from l1 l2 have "lines_of (meme_info_text ex_lib ex_m1) =
     [lbl_name @ codepoints ''ksyx'',
      lbl_alias @ [91, 39] @ codepoints ''look'' @ [39, 44, 32, 39] @ codepoints ''see'' @ [39, 93],
      lbl_images @ codepoints ''1'' @ unit_images]"
    and "lines_of (meme_info_text ex_lib ex_m2) =
     [lbl_name @ codepoints ''petpet'',
      lbl_alias @ [91, 39] @ codepoints ''pet'' @ [39, 44, 32, 39] @ codepoints ''look'' @ [39, 93],
      lbl_images @ codepoints ''0~2'' @ unit_images,
      lbl_texts @ codepoints ''1~3'' @ unit_texts,
      lbl_default_texts @ [91, 39] @ codepoints ''hi'' @ [39, 93],
      lbl_tags @ [91, 39] @ codepoints ''cute'' @ [39, 93]]"
    by (simp_all only: ex_m1_lines ex_m2_lines)
  with f1 f2 p1 p2 k1 k2 g1 g2 show ?thesis by blast
qed

section \<open>Generation pipeline: \<open>generate_meme\<close>\<close>

text \<open>
  C9. \<open>generate_meme\<close> returns none when the keyword resolves to no template, so also
  whenever the catalog is not loaded. An exception of the parameter collector, and an
  exception of the generator of either binding, is the outcome of \<open>generate_meme\<close>
  unchanged. In every case the state after the call is the state before it.
\<close>

theorem generate_meme_passes_failures:
  "(find_meme (mgr s) keyword = None \<longrightarrow> generate_meme L ev keyword s = (Inr None, s)) \<and>
   (\<not> memes_loaded (mgr s) \<longrightarrow> generate_meme L ev keyword s = (Inr None, s)) \<and>
   (find_meme (mgr s) keyword = Some m \<and> collect_params L ev (params_type m) = Inl e \<longrightarrow>
      generate_meme L ev keyword s = (Inl e, s)) \<and>
   (find_meme (mgr s) keyword = Some m \<and>
    collect_params L ev (params_type m) = Inr (images, texts, opts) \<and>
    is_py_version L \<and> run_sync_meme L m (map snd images) texts opts = Inl e \<longrightarrow>
      generate_meme L ev keyword s = (Inl e, s)) \<and>
   (find_meme (mgr s) keyword = Some m \<and>
    collect_params L ev (params_type m) = Inr (images, texts, opts) \<and>
    \<not> is_py_version L \<and>
    generate L m (map (\<lambda>i. MemeImage (fst i) (snd i)) images) texts opts = Inl e \<longrightarrow>
      generate_meme L ev keyword s = (Inl e, s)) \<and>
   snd (generate_meme L ev keyword s) = s"
proof (intro conjI impI)
  show "generate_meme L ev keyword s = (Inr None, s)" if "find_meme (mgr s) keyword = None"
    using that by (simp add: generate_meme_def)
  show "generate_meme L ev keyword s = (Inr None, s)" if "\<not> memes_loaded (mgr s)"
    using that by (simp add: generate_meme_def find_meme_def)
  show "generate_meme L ev keyword s = (Inl e, s)"
    if "find_meme (mgr s) keyword = Some m \<and> collect_params L ev (params_type m) = Inl e"
    using that by (simp add: generate_meme_def)
  show "generate_meme L ev keyword s = (Inl e, s)"
    if "find_meme (mgr s) keyword = Some m \<and>
        collect_params L ev (params_type m) = Inr (images, texts, opts) \<and>
        is_py_version L \<and> run_sync_meme L m (map snd images) texts opts = Inl e"
    using that by (simp add: generate_meme_def)
  show "generate_meme L ev keyword s = (Inl e, s)"
    if "find_meme (mgr s) keyword = Some m \<and>
        collect_params L ev (params_type m) = Inr (images, texts, opts) \<and>
        \<not> is_py_version L \<and>
        generate L m (map (\<lambda>i. MemeImage (fst i) (snd i)) images) texts opts = Inl e"
    using that by (simp add: generate_meme_def)
  show "snd (generate_meme L ev keyword s) = s"
    by (rule generate_meme_state)
qed

text \<open>
  On the loaded example state: an unknown keyword; an event from which the collector
  cannot collect; a text on which the current generator fails; the failing legacy
  generator. Before the load nothing resolves.
\<close>

theorem generate_meme_passes_failures_witness:
  "find_meme (mgr ex_sys) (codepoints ''zzz'') = None \<and>
   generate_meme ex_lib (Event (codepoints ''hi'')) (codepoints ''zzz'') ex_sys = (Inr None, ex_sys) \<and>
   \<not> memes_loaded (mgr ex_empty) \<and>
   generate_meme ex_lib (Event (codepoints ''hi'')) (codepoints ''look'') ex_empty =
     (Inr None, ex_empty) \<and>
   find_meme (mgr ex_sys) (codepoints ''look'') = Some ex_m1 \<and>
   collect_params ex_lib (Event []) (params_type ex_m1) =
     Inl (OtherError (codepoints ''no input'')) \<and>
   generate_meme ex_lib (Event []) (codepoints ''look'') ex_sys =
     (Inl (OtherError (codepoints ''no input'')), ex_sys) \<and>
   collect_params ex_lib (Event (codepoints ''boom'')) (params_type ex_m1) =
     Inr ([(codepoints ''a'', ''img'')], [codepoints ''boom''], Options []) \<and>
   \<not> is_py_version ex_lib \<and>
   generate ex_lib ex_m1 (map (\<lambda>i. MemeImage (fst i) (snd i)) [(codepoints ''a'', ''img'')])
     [codepoints ''boom''] (Options []) = Inl (OtherError (codepoints ''render failed'')) \<and>
   generate_meme ex_lib (Event (codepoints ''boom'')) (codepoints ''look'') ex_sys =
     (Inl (OtherError (codepoints ''render failed'')), ex_sys) \<and>
   is_py_version legacy_lib \<and>
   generate_meme legacy_lib (Event (codepoints ''boom'')) (codepoints ''look'') ex_sys =
     (Inl (OtherError (codepoints ''bad image'')), ex_sys) \<and>
   snd (generate_meme ex_lib (Event (codepoints ''hi'')) (codepoints ''look'') ex_sys) = ex_sys"
proof -
  have n: "find_meme (mgr ex_sys) (codepoints ''zzz'') = None"
    by (simp add: find_meme_def ex_sys_eval ex_m1_def ex_m2_def codepoints_def)
  have u: "\<not> memes_loaded (mgr ex_empty)" by (simp add: ex_empty_eval)
  have f: "find_meme (mgr ex_sys) (codepoints ''look'') = Some ex_m1"
    by (simp add: find_meme_def ex_sys_eval ex_m1_def)
  have c1: "collect_params ex_lib (Event []) (params_type ex_m1) =
      Inl (OtherError (codepoints ''no input''))"
    by (simp add: ex_lib_def)
  have c2: "collect_params ex_lib (Event (codepoints ''boom'')) (params_type ex_m1) =
      Inr ([(codepoints ''a'', ''img'')], [codepoints ''boom''], Options [])"
    by (simp add: ex_lib_def codepoints_def)
  have c3: "collect_params legacy_lib (Event (codepoints ''boom'')) (params_type ex_m1) =
      Inr ([(codepoints ''a'', ''img'')], [codepoints ''boom''], Options [])"
    by (simp add: legacy_lib_def ex_lib_def codepoints_def)
  have v: "\<not> is_py_version ex_lib" by (simp add: ex_lib_def)
  have v': "is_py_version legacy_lib" by (simp add: legacy_lib_def)
  have g: "generate ex_lib ex_m1 (map (\<lambda>i. MemeImage (fst i) (snd i)) [(codepoints ''a'', ''img'')])
      [codepoints ''boom''] (Options []) = Inl (OtherError (codepoints ''render failed''))"
    by (simp add: ex_lib_def)
  have g': "run_sync_meme legacy_lib ex_m1 (map snd [(codepoints ''a'', ''img'')])
      [codepoints ''boom''] (Options []) = Inl (OtherError (codepoints ''bad image''))"
    by (simp add: legacy_lib_def)
  from generate_meme_passes_failures [of ex_sys "codepoints ''zzz''" ex_lib "Event (codepoints ''hi'')"] n
  have r1: "generate_meme ex_lib (Event (codepoints ''hi'')) (codepoints ''zzz'') ex_sys =
      (Inr None, ex_sys)"
    by blast
  from generate_meme_passes_failures [of ex_empty "codepoints ''look''" ex_lib
      "Event (codepoints ''hi'')"] u
  have r2: "generate_meme ex_lib (Event (codepoints ''hi'')) (codepoints ''look'') ex_empty =
      (Inr None, ex_empty)"
    by blast
  from generate_meme_passes_failures [of ex_sys "codepoints ''look''" ex_lib "Event []" ex_m1
      "OtherError (codepoints ''no input'')"] f c1
  have r3: "generate_meme ex_lib (Event []) (codepoints ''look'') ex_sys =
      (Inl (OtherError (codepoints ''no input'')), ex_sys)"
    by blast
  from generate_meme_passes_failures [of ex_sys "codepoints ''look''" ex_lib
      "Event (codepoints ''boom'')" ex_m1 "OtherError (codepoints ''render failed'')"
      "[(codepoints ''a'', ''img'')]" "[codepoints ''boom'']" "Options []"] f c2 v g
  have r4: "generate_meme ex_lib (Event (codepoints ''boom'')) (codepoints ''look'') ex_sys =
      (Inl (OtherError (codepoints ''render failed'')), ex_sys)"
    by blast
  from generate_meme_passes_failures [of ex_sys "codepoints ''look''" legacy_lib
      "Event (codepoints ''boom'')" ex_m1 "OtherError (codepoints ''bad image'')"
      "[(codepoints ''a'', ''img'')]" "[codepoints ''boom'']" "Options []"] f c3 v' g'
  have r5: "generate_meme legacy_lib (Event (codepoints ''boom'')) (codepoints ''look'') ex_sys =
      (Inl (OtherError (codepoints ''bad image'')), ex_sys)"
    by blast
  from generate_meme_passes_failures [of ex_sys "codepoints ''look''" ex_lib
      "Event (codepoints ''hi'')"]
  have r6: "snd (generate_meme ex_lib (Event (codepoints ''hi'')) (codepoints ''look'') ex_sys) = ex_sys"
    by blast
  from n u f c1 c2 v v' g r1 r2 r3 r4 r5 r6 show ?thesis by blast
qed

section \<open>Keys are not keywords\<close>

lemma set_flatten_keywords:
  "set (flatten_keywords ms) = (\<Union>t \<in> set ms. set (keywords t))"
  by (induction ms) auto

text \<open>Looking a key up that is no keyword finds the first template with that key.\<close>

lemma find_loop_key:
  assumes "m \<in> set ms" and "\<forall>t \<in> set ms. key m \<notin> set (keywords t)"
  shows "\<exists>pre m' post. ms = pre @ m' # post \<and> key m' = key m \<and>
           (\<forall>p \<in> set pre. key p \<noteq> key m) \<and> find_loop ms (key m) = Some m'"
proof -
  from assms(1) have "key m \<in> set (map key ms)" by simp
  then obtain ks1 ks2 where sp: "map key ms = ks1 @ key m # ks2" and first: "key m \<notin> set ks1"
    using split_list_first [of "key m" "map key ms"] by blast
  from sp obtain pre m' post where ms: "ms = pre @ m' # post" and k1: "map key pre = ks1"
    and k: "key m' = key m"
    by (auto simp: map_eq_append_conv)
  have np: "\<forall>p \<in> set pre. key p \<noteq> key m"
  proof
    fix p assume "p \<in> set pre"
    then have "key p \<in> set (map key pre)" by simp
    with first k1 show "key p \<noteq> key m" by metis
  qed
  have "\<forall>p \<in> set pre. \<not> (key m = key p \<or> key m \<in> set (keywords p))"
  proof
    fix p assume "p \<in> set pre"
    with ms np assms(2) show "\<not> (key m = key p \<or> key m \<in> set (keywords p))"
      by auto
  qed
  moreover from k have "key m = key m' \<or> key m \<in> set (keywords m')" by simp
  ultimately have "find_loop (pre @ m' # post) (key m) = Some m'"
    by (rule find_loop_first)
  with ms k np show ?thesis by blast
qed

lemma find_loop_key_first:
  assumes "ms = pre @ m # post" and "\<forall>p \<in> set pre. key p \<noteq> key m"
    and "\<forall>t \<in> set ms. key m \<notin> set (keywords t)"
  shows "find_loop ms (key m) = Some m"
proof -
  from assms have "\<forall>p \<in> set pre. \<not> (key m = key p \<or> key m \<in> set (keywords p))"
    by auto
  then have "find_loop (pre @ m # post) (key m) = Some m"
    by (rule find_loop_first) simp
  with assms(1) show ?thesis by simp
qed

text \<open>
  C10 as stated fails: both templates of the example carry the key \<open>a\<close>, which is in no
  keyword list; \<open>is_meme_keyword\<close> is false for it, and \<open>find_meme\<close> returns the first
  template, not the second.
\<close>

theorem keys_are_not_keywords_counterexample:
  "mgr dup_sys = mgr (exec dup_lib [OpLoadMemes] init_sys) \<and>
   memes_loaded (mgr dup_sys) \<and>
   dup_m2 \<in> set (memes (mgr dup_sys)) \<and>
   key dup_m2 \<notin> set (flatten_keywords (memes (mgr dup_sys))) \<and>
   is_meme_keyword (mgr dup_sys) (key dup_m2) = False \<and>
   find_meme (mgr dup_sys) (key dup_m2) = Some dup_m1 \<and>
   find_meme (mgr dup_sys) (key dup_m2) \<noteq> Some dup_m2"
proof -
  have "mgr dup_sys = mgr (exec dup_lib [OpLoadMemes] init_sys)"
    by (simp add: dup_sys_def)
  moreover have "memes_loaded (mgr dup_sys) \<and>
      dup_m2 \<in> set (memes (mgr dup_sys)) \<and>
      key dup_m2 \<notin> set (flatten_keywords (memes (mgr dup_sys))) \<and>
      is_meme_keyword (mgr dup_sys) (key dup_m2) = False \<and>
      find_meme (mgr dup_sys) (key dup_m2) = Some dup_m1 \<and>
      find_meme (mgr dup_sys) (key dup_m2) \<noteq> Some dup_m2"
    by (simp add: dup_sys_eval dup_m1_def dup_m2_def codepoints_def
        is_meme_keyword_def find_meme_def)
  ultimately show ?thesis by blast
qed

text \<open>
  C10, amended. In a loaded state that a history of calls has reached, the keyword list is
  the flattening of the templates' keyword lists: its elements are the keywords of the
  templates and nothing else. For a template \<open>m\<close> of the catalog whose key is in no
  template's keyword list, \<open>is_meme_keyword(key)\<close> is false, and \<open>find_meme(key)\<close> returns the
  first template of the catalog that carries this key: \<open>m\<close> itself when no earlier template
  carries it, in particular when the keys of the catalog are distinct.
\<close>

theorem keys_are_not_keywords:
  assumes "st = mgr (exec L cs init_sys)" and "memes_loaded st"
    and "m \<in> set (memes st)"
    and "\<forall>t \<in> set (memes st). key m \<notin> set (keywords t)"
  shows "meme_keywords st = flatten_keywords (memes st) \<and>
         set (meme_keywords st) = (\<Union>t \<in> set (memes st). set (keywords t)) \<and>
         is_meme_keyword st (key m) = False \<and>
         (\<exists>pre m' post. memes st = pre @ m' # post \<and> key m' = key m \<and>
            (\<forall>p \<in> set pre. key p \<noteq> key m) \<and> find_meme st (key m) = Some m') \<and>
         ((\<exists>pre post. memes st = pre @ m # post \<and> (\<forall>p \<in> set pre. key p \<noteq> key m)) \<longrightarrow>
            find_meme st (key m) = Some m) \<and>
         (distinct (map key (memes st)) \<longrightarrow> find_meme st (key m) = Some m)"
proof -
  from assms(1,2) have flat: "meme_keywords st = flatten_keywords (memes st)"
    using reachable_loaded_flat [of L cs] by simp
  then have sets: "set (meme_keywords st) = (\<Union>t \<in> set (memes st). set (keywords t))"
    by (simp add: set_flatten_keywords)
  from sets assms(4) have nk: "is_meme_keyword st (key m) = False"
    by (simp add: is_meme_keyword_def)
  from find_loop_key [OF assms(3,4)] assms(2)
  have first: "\<exists>pre m' post. memes st = pre @ m' # post \<and> key m' = key m \<and>
      (\<forall>p \<in> set pre. key p \<noteq> key m) \<and> find_meme st (key m) = Some m'"
    by (simp add: find_meme_def)
  have self: "find_meme st (key m) = Some m"
    if "\<exists>pre post. memes st = pre @ m # post \<and> (\<forall>p \<in> set pre. key p \<noteq> key m)"
  proof -
    from that obtain pre post where "memes st = pre @ m # post" "\<forall>p \<in> set pre. key p \<noteq> key m"
      by blast
    from find_loop_key_first [OF this assms(4)] assms(2) show ?thesis
      by (simp add: find_meme_def)
  qed
  have dist: "find_meme st (key m) = Some m" if d: "distinct (map key (memes st))"
  proof -
    from assms(3) obtain pre post where sp: "memes st = pre @ m # post"
      using split_list by fastforce
    with d have "key m \<notin> set (map key pre)" by simp
    have "\<forall>p \<in> set pre. key p \<noteq> key m"
    proof
      fix p assume "p \<in> set pre"
      then have "key p \<in> set (map key pre)" by simp
      with \<open>key m \<notin> set (map key pre)\<close> show "key p \<noteq> key m" by metis
    qed
    with sp self show ?thesis by blast
  qed
  from flat sets nk first self dist show ?thesis by blast
qed

text \<open>
  In the example catalog the key \<open>ksyx\<close> of the first template and the key \<open>petpet\<close> of the
  second are in no keyword list, and the keys are distinct.
\<close>

theorem keys_are_not_keywords_witness:
  "mgr ex_sys = mgr (exec ex_lib [OpCheckResources, OpLoadMemes] init_sys) \<and>
   memes_loaded (mgr ex_sys) \<and>
   ex_m2 \<in> set (memes (mgr ex_sys)) \<and>
   key ex_m2 \<notin> set (keywords ex_m1) \<and> key ex_m2 \<notin> set (keywords ex_m2) \<and>
   distinct (map key (memes (mgr ex_sys))) \<and>
   is_meme_keyword (mgr ex_sys) (key ex_m2) = False \<and>
   find_meme (mgr ex_sys) (key ex_m2) = Some ex_m2 \<and>
   is_meme_keyword (mgr ex_sys) (codepoints ''pet'') = True"
proof -
  have a: "mgr ex_sys = mgr (exec ex_lib [OpCheckResources, OpLoadMemes] init_sys)"
    by (simp add: ex_sys_def)
  have b: "memes_loaded (mgr ex_sys)" by (simp add: ex_sys_eval)
  have c: "ex_m2 \<in> set (memes (mgr ex_sys))" by (simp add: ex_sys_eval)
  have k1: "key ex_m2 \<notin> set (keywords ex_m1)"
    by (simp add: ex_m1_def ex_m2_def codepoints_def)
  have k2: "key ex_m2 \<notin> set (keywords ex_m2)"
    by (simp add: ex_m2_def codepoints_def)
  from k1 k2 have d: "\<forall>t \<in> set (memes (mgr ex_sys)). key ex_m2 \<notin> set (keywords t)"
    by (simp add: ex_sys_eval)
  have e: "distinct (map key (memes (mgr ex_sys)))"
    by (simp add: ex_sys_eval ex_m1_def ex_m2_def codepoints_def)
  from keys_are_not_keywords [OF a b c d] e
  have r: "is_meme_keyword (mgr ex_sys) (key ex_m2) = False \<and>
      find_meme (mgr ex_sys) (key ex_m2) = Some ex_m2"
    by blast
  have p: "is_meme_keyword (mgr ex_sys) (codepoints ''pet'') = True"
    by (simp add: is_meme_keyword_def ex_sys_eval)
  from a b c k1 k2 e r p show ?thesis by blast
qed

end
